theory Spec2Isabelle
  imports Complex_Main "HOL-Library.Char_ord" "HOL-Library.List_Lexorder" "HOL-Library.Sublist"
begin

section \<open>Tabular data as the pipeline sees it\<close>

text \<open>
  The pipeline of \<^verbatim>\<open>process_sap_data.py\<close> works on pandas data frames read from
  two SQL tables. A frame is modelled by the list of its column labels and the list of
  its rows, each row a record with one field per column the frame can have. A nullable
  cell (SQL NULL, \<^verbatim>\<open>None\<close>, \<^verbatim>\<open>NaN\<close>, \<^verbatim>\<open>NaT\<close>) is an \<open>option\<close>. Numeric
  columns are float64 in pandas; they are modelled by exact reals, so rounding is not
  part of the model. Timestamps are integers (ticks since an epoch), and strings are
  compared by code point, as Python does.
\<close>

type_synonym timestamp = int

record 'r frame =
  columns :: "string list"
  rows :: "'r list"

text \<open>\<^verbatim>\<open>pd.DataFrame()\<close>: no columns, no rows.\<close>

definition DataFrame :: "'r frame" where
  "DataFrame = \<lparr>columns = [], rows = []\<rparr>"

text \<open>\<^verbatim>\<open>df.empty\<close> for a frame that has columns: true when it has no row.\<close>

definition empty :: "'r list \<Rightarrow> bool" where
  "empty df = (df = [])"

text \<open>\<^verbatim>\<open>len(df)\<close>: the number of rows.\<close>

definition len :: "'r frame \<Rightarrow> nat" where
  "len df = length (rows df)"

datatype error =
    KeyError "string list"  \<comment> \<open>pandas: "Column(s) [...] do not exist"\<close>
  | ValueError string
  | ExternalError string    \<comment> \<open>anything raised by a collaborator (database, vault, search service)\<close>

subsection \<open>Source rows\<close>

text \<open>
  A float has two zeros, which are equal and add up alike but divide differently. The
  pipeline divides by one column only, the quantity of a BW row, so the cells of the
  quantity columns keep the sign of a zero: \<open>Number 0\<close> is the positive zero and
  \<open>NegativeZero\<close> the negative one. In every other numeric column a real stands for
  the float of that value. \<open>cell_value\<close> is the value of a cell, as a sum or a
  comparison with 0 sees it.
\<close>

datatype float_cell = Missing | Number real | NegativeZero

definition cell_value :: "float_cell \<Rightarrow> real option" where
  "cell_value c = (case c of Missing \<Rightarrow> None | Number v \<Rightarrow> Some v | NegativeZero \<Rightarrow> Some 0)"

text \<open>The columns selected by \<^verbatim>\<open>get_raw_sap_ecc_data\<close> from \<^verbatim>\<open>SapEccRawData\<close>.\<close>

record ecc_row =
  ecc_CustomerID :: "string option"
  ecc_OrderNumber :: "string option"
  ecc_OrderDate :: "timestamp option"
  ecc_ProductCode :: "string option"
  ecc_Quantity :: float_cell
  ecc_UnitPrice :: "real option"
  ecc_TotalAmount :: "real option"
  ecc_Status :: "string option"
  ecc_SalesRep :: "string option"
  ecc_Region :: "string option"
  ecc_ProcessedDate :: "timestamp option"

text \<open>The columns selected by \<^verbatim>\<open>get_raw_sap_bw_data\<close> from \<^verbatim>\<open>SapBwRawData\<close>.\<close>

record bw_row =
  bw_CustomerID :: "string option"
  bw_ProductCode :: "string option"
  bw_SalesAmount :: "real option"
  bw_SalesQuantity :: float_cell
  bw_SalesDate :: "timestamp option"
  bw_SalesRep :: "string option"
  bw_Region :: "string option"
  bw_Channel :: "string option"
  bw_ProductCategory :: "string option"
  bw_CustomerSegment :: "string option"
  bw_ProcessedDate :: "timestamp option"

subsection \<open>pandas group-by and its aggregations\<close>

text \<open>The non-null cells of a column, in row order.\<close>

primrec dropna :: "'a option list \<Rightarrow> 'a list" where
  "dropna [] = []"
| "dropna (x # xs) = (case x of None \<Rightarrow> dropna xs | Some v \<Rightarrow> v # dropna xs)"

text \<open>
  \<^verbatim>\<open>df.groupby(key)\<close> with the defaults \<^verbatim>\<open>sort=True, dropna=True\<close>: rows whose key is
  null belong to no group, and the groups come out in ascending key order.
\<close>

definition group_keys :: "('r \<Rightarrow> string option) \<Rightarrow> 'r list \<Rightarrow> string list" where
  "group_keys key df = sort (remdups (dropna (map key df)))"

definition group_rows :: "('r \<Rightarrow> string option) \<Rightarrow> string \<Rightarrow> 'r list \<Rightarrow> 'r list" where
  "group_rows key k df = filter (\<lambda>r. key r = Some k) df"

text \<open>\<^verbatim>\<open>'count'\<close>: the number of non-null cells.\<close>

definition agg_count :: "'a option list \<Rightarrow> int" where
  "agg_count xs = int (length (dropna xs))"

text \<open>\<^verbatim>\<open>'sum'\<close>: nulls are skipped, and a group with no value sums to 0.\<close>

definition agg_sum :: "'a::monoid_add option list \<Rightarrow> 'a" where
  "agg_sum xs = sum_list (dropna xs)"

text \<open>\<^verbatim>\<open>'max'\<close>: nulls are skipped, and a group with no value gives null.\<close>

definition agg_max :: "timestamp option list \<Rightarrow> timestamp option" where
  "agg_max xs = (case dropna xs of [] \<Rightarrow> None | y # ys \<Rightarrow> Some (fold max ys y))"

text \<open>\<^verbatim>\<open>'first'\<close>: the first non-null cell of the group, null when there is none.\<close>

definition agg_first :: "'a option list \<Rightarrow> 'a option" where
  "agg_first xs = (case dropna xs of [] \<Rightarrow> None | y # ys \<Rightarrow> Some y)"

text \<open>\<^verbatim>\<open>'mean'\<close>: the mean of the non-null cells, null when there is none.\<close>

definition agg_mean :: "real option list \<Rightarrow> real option" where
  "agg_mean xs = (case dropna xs of [] \<Rightarrow> None | y # ys \<Rightarrow> Some (sum_list (y # ys) / real (length (y # ys))))"

text \<open>
  \<^verbatim>\<open>pd.concat(frames, ignore_index=True)\<close>: the rows of the frames one after the other,
  under the union of their columns in order of first appearance. A row of a frame that
  lacks a column is null there: the row records below already hold \<open>None\<close> in the
  fields of a column their frame does not have.
\<close>

primrec union_columns :: "string list \<Rightarrow> string list \<Rightarrow> string list" where
  "union_columns acc [] = acc"
| "union_columns acc (c # cs) = union_columns (if c \<in> set acc then acc else acc @ [c]) cs"

definition concat_frames :: "'r frame list \<Rightarrow> 'r frame" where
  "concat_frames fs = \<lparr>columns = union_columns [] (concat (map columns fs)),
                      rows = concat (map rows fs)\<rparr>"

text \<open>
  \<^verbatim>\<open>GroupBy.agg\<close> given a dict raises when a key of the dict is not a column of the
  frame; the error lists the missing labels in sorted order.
\<close>

definition missing_columns :: "string list \<Rightarrow> 'r frame \<Rightarrow> string list" where
  "missing_columns wanted df = sort (remdups (filter (\<lambda>c. c \<notin> set (columns df)) wanted))"

text \<open>
  \<^verbatim>\<open>df.columns = labels\<close> relabels the columns by position and leaves the cells as they
  are. Every such assignment of the pipeline gives as many labels as the frame has
  columns.
\<close>

definition set_columns :: "string list \<Rightarrow> 'r frame \<Rightarrow> 'r frame" where
  "set_columns labels df = df\<lparr>columns := labels\<rparr>"

text \<open>
  \<^verbatim>\<open>df[label] = value\<close>: the column is overwritten when the frame has it and appended
  otherwise; \<open>upd\<close> writes the cell of one row.
\<close>

definition setitem :: "string \<Rightarrow> ('r \<Rightarrow> 'r) \<Rightarrow> 'r frame \<Rightarrow> 'r frame" where
  "setitem label upd df =
     \<lparr>columns = (if label \<in> set (columns df) then columns df else columns df @ [label]),
      rows = map upd (rows df)\<rparr>"

section \<open>Customer reconciliation\<close>

text \<open>
  A row of the per-source customer rollups and of their concatenation. The fields are
  named after the labels the rollups carry once relabelled. A field is \<open>None\<close> while
  its frame has no such column: \<^verbatim>\<open>DataSource\<close> before it is assigned,
  \<^verbatim>\<open>TotalOrders\<close> in the BW rollup before it is set to 0, and \<^verbatim>\<open>TotalQuantity\<close> and
  \<^verbatim>\<open>CustomerSegment\<close> in the ECC rollup, which never has them.
\<close>

record customer_rollup =
  cr_CustomerID :: string
  cr_TotalOrders :: "int option"
  cr_TotalSalesAmount :: real
  cr_LastOrderDate :: "timestamp option"
  cr_Region :: "string option"
  cr_SalesRep :: "string option"
  cr_DataSource :: "string option"
  cr_TotalQuantity :: "real option"
  cr_CustomerSegment :: "string option"

text \<open>A row of the reconciled customer frame; the metadata columns are added last.\<close>

record customer =
  cu_CustomerID :: string
  cu_TotalOrders :: int
  cu_TotalSalesAmount :: real
  cu_LastOrderDate :: "timestamp option"
  cu_Region :: "string option"
  cu_SalesRep :: "string option"
  cu_CustomerSegment :: "string option"
  cu_CreatedDate :: "timestamp option"
  cu_UpdatedDate :: "timestamp option"
  cu_IsActive :: "bool option"

text \<open>
  \<^verbatim>\<open>ecc_data.groupby('CustomerID').agg({...}).reset_index()\<close>; \<open>ecc_customer\<close> is the
  row of one group.
\<close>

definition ecc_customer :: "ecc_row list \<Rightarrow> string \<Rightarrow> customer_rollup" where
  "ecc_customer ecc_data k =
     (let g = group_rows ecc_CustomerID k ecc_data in
      \<lparr>cr_CustomerID = k,
       cr_TotalOrders = Some (agg_count (map ecc_OrderNumber g)),
       cr_TotalSalesAmount = agg_sum (map ecc_TotalAmount g),
       cr_LastOrderDate = agg_max (map ecc_OrderDate g),
       cr_Region = agg_first (map ecc_Region g),
       cr_SalesRep = agg_first (map ecc_SalesRep g),
       cr_DataSource = None,
       cr_TotalQuantity = None,
       cr_CustomerSegment = None\<rparr>)"

definition ecc_customers_agg :: "ecc_row list \<Rightarrow> customer_rollup frame" where
  "ecc_customers_agg ecc_data =
     \<lparr>columns = [''CustomerID'', ''OrderNumber'', ''TotalAmount'', ''OrderDate'', ''Region'', ''SalesRep''],
      rows = map (ecc_customer ecc_data) (group_keys ecc_CustomerID ecc_data)\<rparr>"

text \<open>
  The assignments to \<^verbatim>\<open>ecc_customers\<close>: its columns are relabelled, then
  \<^verbatim>\<open>DataSource\<close> is added. The ECC rollup is the aggregate after them.
\<close>

definition ecc_customers_inplace :: "customer_rollup frame \<Rightarrow> customer_rollup frame" where
  "ecc_customers_inplace df =
     setitem ''DataSource'' (\<lambda>r. r\<lparr>cr_DataSource := Some ''SAP_ECC''\<rparr>)
       (set_columns [''CustomerID'', ''TotalOrders'', ''TotalSalesAmount'', ''LastOrderDate'',
                     ''Region'', ''SalesRep'']
          df)"

definition ecc_customers :: "ecc_row list \<Rightarrow> customer_rollup frame" where
  "ecc_customers ecc_data = ecc_customers_inplace (ecc_customers_agg ecc_data)"

text \<open>\<^verbatim>\<open>bw_data.groupby('CustomerID').agg({...}).reset_index()\<close>.\<close>

definition bw_customer :: "bw_row list \<Rightarrow> string \<Rightarrow> customer_rollup" where
  "bw_customer bw_data k =
     (let g = group_rows bw_CustomerID k bw_data in
      \<lparr>cr_CustomerID = k,
       cr_TotalOrders = None,
       cr_TotalSalesAmount = agg_sum (map bw_SalesAmount g),
       cr_LastOrderDate = agg_max (map bw_SalesDate g),
       cr_Region = agg_first (map bw_Region g),
       cr_SalesRep = agg_first (map bw_SalesRep g),
       cr_DataSource = None,
       cr_TotalQuantity = Some (agg_sum (map (\<lambda>r. cell_value (bw_SalesQuantity r)) g)),
       cr_CustomerSegment = agg_first (map bw_CustomerSegment g)\<rparr>)"

definition bw_customers_agg :: "bw_row list \<Rightarrow> customer_rollup frame" where
  "bw_customers_agg bw_data =
     \<lparr>columns = [''CustomerID'', ''SalesAmount'', ''SalesQuantity'', ''SalesDate'', ''Region'',
                 ''CustomerSegment'', ''SalesRep''],
      rows = map (bw_customer bw_data) (group_keys bw_CustomerID bw_data)\<rparr>"

text \<open>
  The assignments to \<^verbatim>\<open>bw_customers\<close>: relabelled, then \<^verbatim>\<open>TotalOrders\<close> set to 0
  (BW has no order count), then \<^verbatim>\<open>DataSource\<close> added.
\<close>

definition bw_customers_inplace :: "customer_rollup frame \<Rightarrow> customer_rollup frame" where
  "bw_customers_inplace df =
     setitem ''DataSource'' (\<lambda>r. r\<lparr>cr_DataSource := Some ''SAP_BW''\<rparr>)
       (setitem ''TotalOrders'' (\<lambda>r. r\<lparr>cr_TotalOrders := Some 0\<rparr>)
          (set_columns [''CustomerID'', ''TotalSalesAmount'', ''TotalQuantity'', ''LastOrderDate'',
                        ''Region'', ''CustomerSegment'', ''SalesRep'']
             df))"

definition bw_customers :: "bw_row list \<Rightarrow> customer_rollup frame" where
  "bw_customers bw_data = bw_customers_inplace (bw_customers_agg bw_data)"

text \<open>
  The final aggregation of the concatenated rollups:
  \<^verbatim>\<open>combined_customers.groupby('CustomerID').agg({...}).reset_index()\<close>. It raises when
  the concatenation lacks one of the aggregated columns.
\<close>

definition final_customer :: "customer_rollup list \<Rightarrow> string \<Rightarrow> customer" where
  "final_customer combined k =
     (let g = filter (\<lambda>r. cr_CustomerID r = k) combined in
      \<lparr>cu_CustomerID = k,
       cu_TotalOrders = agg_sum (map cr_TotalOrders g),
       cu_TotalSalesAmount = sum_list (map cr_TotalSalesAmount g),
       cu_LastOrderDate = agg_max (map cr_LastOrderDate g),
       cu_Region = agg_first (map cr_Region g),
       cu_SalesRep = agg_first (map cr_SalesRep g),
       cu_CustomerSegment = agg_first (map cr_CustomerSegment g),
       cu_CreatedDate = None,
       cu_UpdatedDate = None,
       cu_IsActive = None\<rparr>)"

definition final_customers_agg :: "customer_rollup frame \<Rightarrow> error + customer frame" where
  "final_customers_agg combined_customers =
     (case missing_columns [''TotalOrders'', ''TotalSalesAmount'', ''LastOrderDate'', ''Region'',
                            ''SalesRep'', ''CustomerSegment''] combined_customers of
        [] \<Rightarrow> Inr \<lparr>columns = [''CustomerID'', ''TotalOrders'', ''TotalSalesAmount'', ''LastOrderDate'',
                              ''Region'', ''SalesRep'', ''CustomerSegment''],
                   rows = map (final_customer (rows combined_customers))
                              (sort (remdups (map cr_CustomerID (rows combined_customers))))\<rparr>
      | c # cs \<Rightarrow> Inl (KeyError (c # cs)))"

text \<open>
  The metadata columns; \<open>created\<close> and \<open>updated\<close> are the two readings of
  \<^verbatim>\<open>datetime.utcnow()\<close>.
\<close>

definition customer_metadata :: "timestamp \<Rightarrow> timestamp \<Rightarrow> customer frame \<Rightarrow> customer frame" where
  "customer_metadata created updated final_customers =
     setitem ''IsActive'' (\<lambda>r. r\<lparr>cu_IsActive := Some True\<rparr>)
       (setitem ''UpdatedDate'' (\<lambda>r. r\<lparr>cu_UpdatedDate := Some updated\<rparr>)
          (setitem ''CreatedDate'' (\<lambda>r. r\<lparr>cu_CreatedDate := Some created\<rparr>) final_customers))"

text \<open>
  \<^verbatim>\<open>SapDataProcessor.process_customer_data\<close>. Its \<^verbatim>\<open>except\<close> clause logs and
  re-raises, so an error of the body is the error of the call.
\<close>

definition process_customer_data ::
    "timestamp \<Rightarrow> timestamp \<Rightarrow> ecc_row list \<Rightarrow> bw_row list \<Rightarrow> error + customer frame" where
  "process_customer_data created updated ecc_data bw_data =
     (let customer_data = (if \<not> empty ecc_data then [ecc_customers ecc_data] else [])
                        @ (if \<not> empty bw_data then [bw_customers bw_data] else [])
      in if customer_data \<noteq> []
         then (case final_customers_agg (concat_frames customer_data) of
                 Inl e \<Rightarrow> Inl e
               | Inr final_customers \<Rightarrow> Inr (customer_metadata created updated final_customers))
         else Inr DataFrame)"

section \<open>Product reconciliation\<close>

text \<open>
  A row of the per-source product rollups. \<^verbatim>\<open>UnitPrice\<close> is null in the ECC rollup
  when the group has no unit price, and absent from the BW rollup until it is set to 0;
  only the BW rollup has \<^verbatim>\<open>ProductCategory\<close>.
\<close>

record product_rollup =
  pr_ProductCode :: string
  pr_TotalQuantitySold :: real
  pr_TotalSalesAmount :: real
  pr_UnitPrice :: "real option"
  pr_DataSource :: "string option"
  pr_ProductCategory :: "string option"

record product =
  pd_ProductCode :: string
  pd_TotalQuantitySold :: real
  pd_TotalSalesAmount :: real
  pd_UnitPrice :: "real option"
  pd_ProductCategory :: "string option"
  pd_CreatedDate :: "timestamp option"
  pd_UpdatedDate :: "timestamp option"
  pd_IsActive :: "bool option"

definition ecc_product :: "ecc_row list \<Rightarrow> string \<Rightarrow> product_rollup" where
  "ecc_product ecc_data k =
     (let g = group_rows ecc_ProductCode k ecc_data in
      \<lparr>pr_ProductCode = k,
       pr_TotalQuantitySold = agg_sum (map (\<lambda>r. cell_value (ecc_Quantity r)) g),
       pr_TotalSalesAmount = agg_sum (map ecc_TotalAmount g),
       pr_UnitPrice = agg_mean (map ecc_UnitPrice g),
       pr_DataSource = None,
       pr_ProductCategory = None\<rparr>)"

definition ecc_products_agg :: "ecc_row list \<Rightarrow> product_rollup frame" where
  "ecc_products_agg ecc_data =
     \<lparr>columns = [''ProductCode'', ''Quantity'', ''TotalAmount'', ''UnitPrice''],
      rows = map (ecc_product ecc_data) (group_keys ecc_ProductCode ecc_data)\<rparr>"

text \<open>The assignments to \<^verbatim>\<open>ecc_products\<close> and to \<^verbatim>\<open>bw_products\<close>, as for the customers.\<close>

definition ecc_products_inplace :: "product_rollup frame \<Rightarrow> product_rollup frame" where
  "ecc_products_inplace df =
     setitem ''DataSource'' (\<lambda>r. r\<lparr>pr_DataSource := Some ''SAP_ECC''\<rparr>)
       (set_columns [''ProductCode'', ''TotalQuantitySold'', ''TotalSalesAmount'', ''UnitPrice'']
          df)"

definition ecc_products :: "ecc_row list \<Rightarrow> product_rollup frame" where
  "ecc_products ecc_data = ecc_products_inplace (ecc_products_agg ecc_data)"

definition bw_product :: "bw_row list \<Rightarrow> string \<Rightarrow> product_rollup" where
  "bw_product bw_data k =
     (let g = group_rows bw_ProductCode k bw_data in
      \<lparr>pr_ProductCode = k,
       pr_TotalQuantitySold = agg_sum (map (\<lambda>r. cell_value (bw_SalesQuantity r)) g),
       pr_TotalSalesAmount = agg_sum (map bw_SalesAmount g),
       pr_UnitPrice = None,
       pr_DataSource = None,
       pr_ProductCategory = agg_first (map bw_ProductCategory g)\<rparr>)"

definition bw_products_agg :: "bw_row list \<Rightarrow> product_rollup frame" where
  "bw_products_agg bw_data =
     \<lparr>columns = [''ProductCode'', ''SalesQuantity'', ''SalesAmount'', ''ProductCategory''],
      rows = map (bw_product bw_data) (group_keys bw_ProductCode bw_data)\<rparr>"

text \<open>BW carries no unit price, so \<^verbatim>\<open>UnitPrice\<close> is set to 0 in its rollup.\<close>

definition bw_products_inplace :: "product_rollup frame \<Rightarrow> product_rollup frame" where
  "bw_products_inplace df =
     setitem ''DataSource'' (\<lambda>r. r\<lparr>pr_DataSource := Some ''SAP_BW''\<rparr>)
       (setitem ''UnitPrice'' (\<lambda>r. r\<lparr>pr_UnitPrice := Some 0\<rparr>)
          (set_columns [''ProductCode'', ''TotalQuantitySold'', ''TotalSalesAmount'', ''ProductCategory'']
             df))"

definition bw_products :: "bw_row list \<Rightarrow> product_rollup frame" where
  "bw_products bw_data = bw_products_inplace (bw_products_agg bw_data)"

text \<open>
  The final aggregation: sums of the quantities and amounts, the \<^verbatim>\<open>'mean'\<close> of the
  rollups' unit prices, the \<^verbatim>\<open>'first'\<close> category.
\<close>

definition final_product :: "product_rollup list \<Rightarrow> string \<Rightarrow> product" where
  "final_product combined k =
     (let g = filter (\<lambda>r. pr_ProductCode r = k) combined in
      \<lparr>pd_ProductCode = k,
       pd_TotalQuantitySold = sum_list (map pr_TotalQuantitySold g),
       pd_TotalSalesAmount = sum_list (map pr_TotalSalesAmount g),
       pd_UnitPrice = agg_mean (map pr_UnitPrice g),
       pd_ProductCategory = agg_first (map pr_ProductCategory g),
       pd_CreatedDate = None,
       pd_UpdatedDate = None,
       pd_IsActive = None\<rparr>)"

definition final_products_agg :: "product_rollup frame \<Rightarrow> error + product frame" where
  "final_products_agg combined_products =
     (case missing_columns [''TotalQuantitySold'', ''TotalSalesAmount'', ''UnitPrice'',
                            ''ProductCategory''] combined_products of
        [] \<Rightarrow> Inr \<lparr>columns = [''ProductCode'', ''TotalQuantitySold'', ''TotalSalesAmount'',
                              ''UnitPrice'', ''ProductCategory''],
                   rows = map (final_product (rows combined_products))
                              (sort (remdups (map pr_ProductCode (rows combined_products))))\<rparr>
      | c # cs \<Rightarrow> Inl (KeyError (c # cs)))"

definition product_metadata :: "timestamp \<Rightarrow> timestamp \<Rightarrow> product frame \<Rightarrow> product frame" where
  "product_metadata created updated final_products =
     setitem ''IsActive'' (\<lambda>r. r\<lparr>pd_IsActive := Some True\<rparr>)
       (setitem ''UpdatedDate'' (\<lambda>r. r\<lparr>pd_UpdatedDate := Some updated\<rparr>)
          (setitem ''CreatedDate'' (\<lambda>r. r\<lparr>pd_CreatedDate := Some created\<rparr>) final_products))"

text \<open>\<^verbatim>\<open>SapDataProcessor.process_product_data\<close>.\<close>

definition process_product_data ::
    "timestamp \<Rightarrow> timestamp \<Rightarrow> ecc_row list \<Rightarrow> bw_row list \<Rightarrow> error + product frame" where
  "process_product_data created updated ecc_data bw_data =
     (let product_data = (if \<not> empty ecc_data then [ecc_products ecc_data] else [])
                       @ (if \<not> empty bw_data then [bw_products bw_data] else [])
      in if product_data \<noteq> []
         then (case final_products_agg (concat_frames product_data) of
                 Inl e \<Rightarrow> Inl e
               | Inr final_products \<Rightarrow> Inr (product_metadata created updated final_products))
         else Inr DataFrame)"

section \<open>Sales reconciliation\<close>

text \<open>
  The quotient of two float64 columns. pandas divides element by element under IEEE
  rules and raises nothing: a null operand gives null, zero over zero gives \<^verbatim>\<open>NaN\<close>,
  and a non-zero amount over a zero quantity gives an infinity, positive when the amount
  and the zero have the same sign and negative otherwise.
\<close>

datatype float64 = NaN | Finite real | PosInf | NegInf

definition float64_of :: "real option \<Rightarrow> float64" where
  "float64_of x = (case x of None \<Rightarrow> NaN | Some v \<Rightarrow> Finite v)"

definition truediv :: "real option \<Rightarrow> float_cell \<Rightarrow> float64" where
  "truediv a b =
     (case (a, b) of
        (Some x, Number y) \<Rightarrow>
          if y \<noteq> 0 then Finite (x / y)
          else if x = 0 then NaN
          else if 0 < x then PosInf else NegInf
      | (Some x, NegativeZero) \<Rightarrow>
          if x = 0 then NaN
          else if 0 < x then NegInf else PosInf
      | _ \<Rightarrow> NaN)"


record sale =
  sl_CustomerID :: "string option"
  sl_ProductCode :: "string option"
  sl_OrderNumber :: "string option"
  sl_SalesDate :: "timestamp option"
  sl_SalesAmount :: "real option"
  sl_SalesQuantity :: float_cell
  sl_UnitPrice :: float64
  sl_Region :: "string option"
  sl_SalesRep :: "string option"
  sl_DataSource :: "string option"
  sl_Channel :: "string option"
  sl_CreatedDate :: "timestamp option"
  sl_IsActive :: "bool option"

text \<open>
  \<^verbatim>\<open>ecc_data[[...]].copy()\<close>: the nine selected columns of every ECC row, in a new
  frame.
\<close>

definition ecc_sale :: "ecc_row \<Rightarrow> sale" where
  "ecc_sale r =
     \<lparr>sl_CustomerID = ecc_CustomerID r,
      sl_ProductCode = ecc_ProductCode r,
      sl_OrderNumber = ecc_OrderNumber r,
      sl_SalesDate = ecc_OrderDate r,
      sl_SalesAmount = ecc_TotalAmount r,
      sl_SalesQuantity = ecc_Quantity r,
      sl_UnitPrice = float64_of (ecc_UnitPrice r),
      sl_Region = ecc_Region r,
      sl_SalesRep = ecc_SalesRep r,
      sl_DataSource = None,
      sl_Channel = None,
      sl_CreatedDate = None,
      sl_IsActive = None\<rparr>"

definition ecc_sales_copy :: "ecc_row list \<Rightarrow> sale frame" where
  "ecc_sales_copy ecc_data =
     \<lparr>columns = [''CustomerID'', ''ProductCode'', ''OrderNumber'', ''OrderDate'', ''TotalAmount'',
                 ''Quantity'', ''UnitPrice'', ''Region'', ''SalesRep''],
      rows = map ecc_sale ecc_data\<rparr>"

text \<open>
  The assignments to \<^verbatim>\<open>ecc_sales\<close>: relabelled to the common field set, with
  \<^verbatim>\<open>DataSource\<close> and the channel \<^verbatim>\<open>Direct\<close> added.
\<close>

definition ecc_sales_inplace :: "sale frame \<Rightarrow> sale frame" where
  "ecc_sales_inplace df =
     setitem ''Channel'' (\<lambda>r. r\<lparr>sl_Channel := Some ''Direct''\<rparr>)
       (setitem ''DataSource'' (\<lambda>r. r\<lparr>sl_DataSource := Some ''SAP_ECC''\<rparr>)
          (set_columns [''CustomerID'', ''ProductCode'', ''OrderNumber'', ''SalesDate'', ''SalesAmount'',
                        ''SalesQuantity'', ''UnitPrice'', ''Region'', ''SalesRep'']
             df))"

definition ecc_sales :: "ecc_row list \<Rightarrow> sale frame" where
  "ecc_sales ecc_data = ecc_sales_inplace (ecc_sales_copy ecc_data)"

text \<open>\<^verbatim>\<open>bw_data[[...]].copy()\<close>: the eight selected columns of every BW row.\<close>

definition bw_sale :: "bw_row \<Rightarrow> sale" where
  "bw_sale r =
     \<lparr>sl_CustomerID = bw_CustomerID r,
      sl_ProductCode = bw_ProductCode r,
      sl_OrderNumber = None,
      sl_SalesDate = bw_SalesDate r,
      sl_SalesAmount = bw_SalesAmount r,
      sl_SalesQuantity = bw_SalesQuantity r,
      sl_UnitPrice = NaN,
      sl_Region = bw_Region r,
      sl_SalesRep = bw_SalesRep r,
      sl_DataSource = None,
      sl_Channel = bw_Channel r,
      sl_CreatedDate = None,
      sl_IsActive = None\<rparr>"

definition bw_sales_copy :: "bw_row list \<Rightarrow> sale frame" where
  "bw_sales_copy bw_data =
     \<lparr>columns = [''CustomerID'', ''ProductCode'', ''SalesDate'', ''SalesAmount'', ''SalesQuantity'',
                 ''Region'', ''Channel'', ''SalesRep''],
      rows = map bw_sale bw_data\<rparr>"

text \<open>
  The assignments to \<^verbatim>\<open>bw_sales\<close>: \<^verbatim>\<open>OrderNumber\<close> is null, \<^verbatim>\<open>UnitPrice\<close> is the
  quotient of the row's amount and quantity, and \<^verbatim>\<open>DataSource\<close> is added.
\<close>

definition bw_sales_inplace :: "sale frame \<Rightarrow> sale frame" where
  "bw_sales_inplace df =
     setitem ''DataSource'' (\<lambda>r. r\<lparr>sl_DataSource := Some ''SAP_BW''\<rparr>)
       (setitem ''UnitPrice'' (\<lambda>r. r\<lparr>sl_UnitPrice := truediv (sl_SalesAmount r) (sl_SalesQuantity r)\<rparr>)
          (setitem ''OrderNumber'' (\<lambda>r. r\<lparr>sl_OrderNumber := None\<rparr>)
             df))"

definition bw_sales :: "bw_row list \<Rightarrow> sale frame" where
  "bw_sales bw_data = bw_sales_inplace (bw_sales_copy bw_data)"

definition sales_metadata :: "timestamp \<Rightarrow> sale frame \<Rightarrow> sale frame" where
  "sales_metadata created combined_sales =
     setitem ''IsActive'' (\<lambda>r. r\<lparr>sl_IsActive := Some True\<rparr>)
       (setitem ''CreatedDate'' (\<lambda>r. r\<lparr>sl_CreatedDate := Some created\<rparr>) combined_sales)"

text \<open>\<^verbatim>\<open>SapDataProcessor.process_sales_data\<close>.\<close>

definition process_sales_data :: "timestamp \<Rightarrow> ecc_row list \<Rightarrow> bw_row list \<Rightarrow> error + sale frame" where
  "process_sales_data created ecc_data bw_data =
     (let sales_data = (if \<not> empty ecc_data then [ecc_sales ecc_data] else [])
                     @ (if \<not> empty bw_data then [bw_sales bw_data] else [])
      in if sales_data \<noteq> []
         then Inr (sales_metadata created (concat_frames sales_data))
         else Inr DataFrame)"

section \<open>Derived forms used in the proofs\<close>

text \<open>
  The rows of the two customer rollups after their in-place assignments, the rows of
  their concatenation, and the row of the reconciled frame with its metadata, each as a
  function of the inputs and the key.
\<close>

definition ecc_customer_row :: "ecc_row list \<Rightarrow> string \<Rightarrow> customer_rollup" where
  "ecc_customer_row ecc_data k = (ecc_customer ecc_data k)\<lparr>cr_DataSource := Some ''SAP_ECC''\<rparr>"

definition bw_customer_row :: "bw_row list \<Rightarrow> string \<Rightarrow> customer_rollup" where
  "bw_customer_row bw_data k = (bw_customer bw_data k)\<lparr>cr_TotalOrders := Some 0, cr_DataSource := Some ''SAP_BW''\<rparr>"

definition combined_customers :: "ecc_row list \<Rightarrow> bw_row list \<Rightarrow> customer_rollup list" where
  "combined_customers ecc_data bw_data = rows (ecc_customers ecc_data) @ rows (bw_customers bw_data)"

definition customer_row :: "timestamp \<Rightarrow> timestamp \<Rightarrow> customer_rollup list \<Rightarrow> string \<Rightarrow> customer" where
  "customer_row created updated combined k =
     (final_customer combined k)\<lparr>cu_CreatedDate := Some created, cu_UpdatedDate := Some updated, cu_IsActive := Some True\<rparr>"

text \<open>The same for the products.\<close>

definition ecc_product_row :: "ecc_row list \<Rightarrow> string \<Rightarrow> product_rollup" where
  "ecc_product_row ecc_data k = (ecc_product ecc_data k)\<lparr>pr_DataSource := Some ''SAP_ECC''\<rparr>"

definition bw_product_row :: "bw_row list \<Rightarrow> string \<Rightarrow> product_rollup" where
  "bw_product_row bw_data k = (bw_product bw_data k)\<lparr>pr_UnitPrice := Some 0, pr_DataSource := Some ''SAP_BW''\<rparr>"

definition combined_products :: "ecc_row list \<Rightarrow> bw_row list \<Rightarrow> product_rollup list" where
  "combined_products ecc_data bw_data = rows (ecc_products ecc_data) @ rows (bw_products bw_data)"

definition product_row :: "timestamp \<Rightarrow> timestamp \<Rightarrow> product_rollup list \<Rightarrow> string \<Rightarrow> product" where
  "product_row created updated combined k =
     (final_product combined k)\<lparr>pd_CreatedDate := Some created, pd_UpdatedDate := Some updated, pd_IsActive := Some True\<rparr>"

text \<open>
  A reconciled customer row \<open>r\<close> carries a rollup row \<open>s\<close> unchanged when the seven
  columns of the final aggregation agree.
\<close>

definition carried :: "customer_rollup \<Rightarrow> customer \<Rightarrow> bool" where
  "carried s r \<longleftrightarrow>
     cu_CustomerID r = cr_CustomerID s \<and> Some (cu_TotalOrders r) = cr_TotalOrders s \<and>
     cu_TotalSalesAmount r = cr_TotalSalesAmount s \<and> cu_LastOrderDate r = cr_LastOrderDate s \<and>
     cu_Region r = cr_Region s \<and> cu_SalesRep r = cr_SalesRep s \<and>
     cu_CustomerSegment r = cr_CustomerSegment s"

section \<open>The collaborators and the ETL orchestrator\<close>

text \<open>
  The database, the secret vault, the search service and the clock are outside the
  program. Each call to one of them is a transition of an outer world \<open>'w\<close> that
  either raises or returns a value.
\<close>

type_synonym ('a, 'w) call = "'w \<Rightarrow> (error + 'a) \<times> 'w"

text \<open>A value of a search document, as \<^verbatim>\<open>df.to_dict('records')\<close> yields it.\<close>

datatype doc_value =
    VNone                  \<comment> \<open>\<^verbatim>\<open>None\<close>\<close>
  | VNaN                   \<comment> \<open>a float \<^verbatim>\<open>NaN\<close>\<close>
  | VStr string
  | VNum real
  | VDatetime string       \<comment> \<open>an instance of \<^verbatim>\<open>datetime\<close>, held as the text \<^verbatim>\<open>isoformat()\<close> gives for it\<close>

type_synonym document = "(string \<times> doc_value) list"

text \<open>The statements that \<^verbatim>\<open>save_processed_data\<close> executes on its cursor.\<close>

datatype statement =
    MergeCustomer customer
  | MergeProduct product
  | InsertSale sale

datatype documents_query = CustomerDocuments | SalesDocuments | ProductDocuments

record 'w collaborators =
  get_secret :: "string \<Rightarrow> (string, 'w) call"
    \<comment> \<open>\<^verbatim>\<open>secret_client.get_secret(name).value\<close>\<close>
  read_ecc :: "string \<Rightarrow> (ecc_row list, 'w) call"
    \<comment> \<open>\<^verbatim>\<open>pyodbc.connect\<close> on a connection string, then \<^verbatim>\<open>pd.read_sql\<close> of the ECC query\<close>
  read_bw :: "string \<Rightarrow> (bw_row list, 'w) call"
  run_transaction :: "string \<Rightarrow> statement list \<Rightarrow> (unit, 'w) call"
    \<comment> \<open>connect, execute the statements in order, commit\<close>
  read_documents :: "documents_query \<Rightarrow> string \<Rightarrow> (document list, 'w) call"
    \<comment> \<open>connect, \<^verbatim>\<open>pd.read_sql\<close> of a document query, \<^verbatim>\<open>to_dict('records')\<close>\<close>
  create_or_update_index :: "string \<times> string \<Rightarrow> string \<Rightarrow> (unit, 'w) call"
    \<comment> \<open>credentials and index name\<close>
  search_all_ids :: "string \<times> string \<Rightarrow> string \<Rightarrow> (string list, 'w) call"
    \<comment> \<open>\<^verbatim>\<open>search_client.search("*", select=["id"])\<close>, read to the end\<close>
  delete_documents :: "string \<times> string \<Rightarrow> string \<Rightarrow> string list \<Rightarrow> (unit, 'w) call"
  upload :: "string \<times> string \<Rightarrow> string \<Rightarrow> document list \<Rightarrow> (bool list, 'w) call"
    \<comment> \<open>\<^verbatim>\<open>search_client.upload_documents(batch)\<close>: one \<^verbatim>\<open>succeeded\<close> flag per document\<close>

text \<open>Python's truth value of an optional string: \<^verbatim>\<open>None\<close> and \<^verbatim>\<open>''\<close> are false.\<close>

definition truthy :: "string option \<Rightarrow> bool" where
  "truthy s = (case s of None \<Rightarrow> False | Some v \<Rightarrow> v \<noteq> [])"

text \<open>
  \<^verbatim>\<open>SapDataProcessor.__init__\<close>: the settings are read from the process environment, a
  map from names to values; the vault client exists when a vault URL is set.
\<close>

record processor =
  sdp_key_vault_url :: "string option"
  sdp_sql_connection_string :: "string option"
  sdp_processed_sql_connection_string :: "string option"
  sdp_secret_client :: bool

definition SapDataProcessor :: "(string \<rightharpoonup> string) \<Rightarrow> processor" where
  "SapDataProcessor environ =
     \<lparr>sdp_key_vault_url = environ ''KEY_VAULT_URL'',
      sdp_sql_connection_string = environ ''SQL_CONNECTION_STRING'',
      sdp_processed_sql_connection_string = environ ''PROCESSED_SQL_CONNECTION_STRING'',
      sdp_secret_client = truthy (environ ''KEY_VAULT_URL'')\<rparr>"

definition get_connection_string :: "processor \<Rightarrow> 'w collaborators \<Rightarrow> bool \<Rightarrow> (string, 'w) call" where
  "get_connection_string self x use_processed_db w =
     (case (if use_processed_db then sdp_processed_sql_connection_string self else None) of
        Some (c # cs) \<Rightarrow> (Inr (c # cs), w)
      | _ \<Rightarrow>
     (case sdp_sql_connection_string self of
        Some (c # cs) \<Rightarrow> (Inr (c # cs), w)
      | _ \<Rightarrow>
          if sdp_secret_client self
          then get_secret x ''sql-connection-string'' w
          else (Inl (ValueError ''No SQL connection string available''), w)))"

text \<open>The readers log and re-raise, so an error of the body is the error of the call.\<close>

definition get_raw_sap_ecc_data :: "processor \<Rightarrow> 'w collaborators \<Rightarrow> (ecc_row list, 'w) call" where
  "get_raw_sap_ecc_data self x w =
     (case get_connection_string self x False w of
        (Inl e, w') \<Rightarrow> (Inl e, w')
      | (Inr connection_string, w') \<Rightarrow> read_ecc x connection_string w')"

definition get_raw_sap_bw_data :: "processor \<Rightarrow> 'w collaborators \<Rightarrow> (bw_row list, 'w) call" where
  "get_raw_sap_bw_data self x w =
     (case get_connection_string self x False w of
        (Inl e, w') \<Rightarrow> (Inl e, w')
      | (Inr connection_string, w') \<Rightarrow> read_bw x connection_string w')"

text \<open>
  \<^verbatim>\<open>df.empty\<close> for a frame that may be \<^verbatim>\<open>pd.DataFrame()\<close>: no row or no column.
\<close>

definition frame_empty :: "'r frame \<Rightarrow> bool" where
  "frame_empty df = (rows df = [] \<or> columns df = [])"

text \<open>
  \<^verbatim>\<open>save_processed_data\<close>: one connection to the processed database, a merge per
  customer and per product and an insert per sale, each group skipped when its frame is
  empty, then the commit.
\<close>

definition save_processed_data ::
    "processor \<Rightarrow> 'w collaborators \<Rightarrow> customer frame \<Rightarrow> product frame \<Rightarrow> sale frame \<Rightarrow> (unit, 'w) call" where
  "save_processed_data self x customers_df products_df sales_df w =
     (case get_connection_string self x True w of
        (Inl e, w') \<Rightarrow> (Inl e, w')
      | (Inr connection_string, w') \<Rightarrow>
          run_transaction x connection_string
            ((if \<not> frame_empty customers_df then map MergeCustomer (rows customers_df) else []) @
             (if \<not> frame_empty products_df then map MergeProduct (rows products_df) else []) @
             (if \<not> frame_empty sales_df then map InsertSale (rows sales_df) else [])) w')"

text \<open>\<^verbatim>\<open>str(n)\<close> for a natural number: its decimal digits.\<close>

definition digit :: "nat \<Rightarrow> char" where
  "digit d = ''0123456789'' ! d"

function str_nat :: "nat \<Rightarrow> string" where
  "str_nat n = (if n < 10 then [digit n] else str_nat (n div 10) @ [digit (n mod 10)])"
  by pat_completeness auto
termination
  by (relation "measure id") auto

declare str_nat.simps [simp del]

text \<open>
  The five readings of \<^verbatim>\<open>datetime.utcnow()\<close> that the three reconciliations make when
  they reach their metadata columns.
\<close>

record readings =
  customers_created :: timestamp
  customers_updated :: timestamp
  products_created :: timestamp
  products_updated :: timestamp
  sales_created :: timestamp

text \<open>The calls of \<^verbatim>\<open>process_sap_data\<close>, in the order of its body.\<close>

datatype stage = ReadECC | ReadBW | ReconcileCustomers | ReconcileProducts | ReconcileSales | WriteAll

definition summary :: "customer frame \<Rightarrow> product frame \<Rightarrow> sale frame \<Rightarrow> string" where
  "summary customers_df products_df sales_df =
     ''Successfully processed '' @ str_nat (len customers_df) @ '' customers, '' @
     str_nat (len products_df) @ '' products, and '' @ str_nat (len sales_df) @ '' sales records''"

text \<open>
  \<^verbatim>\<open>process_sap_data\<close>. Its \<^verbatim>\<open>except\<close> clause logs and re-raises. The result is the
  list of the stages that were started, the summary or the error, and the world the run
  leaves behind.
\<close>

definition process_sap_data ::
    "(string \<rightharpoonup> string) \<Rightarrow> 'w collaborators \<Rightarrow> readings \<Rightarrow> 'w \<Rightarrow> stage list \<times> (error + string) \<times> 'w" where
  "process_sap_data environ x now w =
     (let processor = SapDataProcessor environ in
      case get_raw_sap_ecc_data processor x w of
        (Inl e, w1) \<Rightarrow> ([ReadECC], Inl e, w1)
      | (Inr ecc_data, w1) \<Rightarrow>
     (case get_raw_sap_bw_data processor x w1 of
        (Inl e, w2) \<Rightarrow> ([ReadECC, ReadBW], Inl e, w2)
      | (Inr bw_data, w2) \<Rightarrow>
     (case process_customer_data (customers_created now) (customers_updated now) ecc_data bw_data of
        Inl e \<Rightarrow> ([ReadECC, ReadBW, ReconcileCustomers], Inl e, w2)
      | Inr customers_df \<Rightarrow>
     (case process_product_data (products_created now) (products_updated now) ecc_data bw_data of
        Inl e \<Rightarrow> ([ReadECC, ReadBW, ReconcileCustomers, ReconcileProducts], Inl e, w2)
      | Inr products_df \<Rightarrow>
     (case process_sales_data (sales_created now) ecc_data bw_data of
        Inl e \<Rightarrow> ([ReadECC, ReadBW, ReconcileCustomers, ReconcileProducts, ReconcileSales], Inl e, w2)
      | Inr sales_df \<Rightarrow>
     (case save_processed_data processor x customers_df products_df sales_df w2 of
        (Inl e, w3) \<Rightarrow>
          ([ReadECC, ReadBW, ReconcileCustomers, ReconcileProducts, ReconcileSales, WriteAll], Inl e, w3)
      | (Inr u, w3) \<Rightarrow>
          ([ReadECC, ReadBW, ReconcileCustomers, ReconcileProducts, ReconcileSales, WriteAll],
           Inr (summary customers_df products_df sales_df), w3)))))))"

section \<open>The search index update\<close>
































section \<open>The reconciliation on a store of frames\<close>

text \<open>
  pandas frames are mutable objects, and the three reconciliations assign to columns
  and labels in place. To see which objects they write, the frames live in a store: a
  reference is a position in the list of the objects allocated so far. The operations
  that build a frame (group-by with aggregation and \<^verbatim>\<open>reset_index\<close>, a column selection
  with \<^verbatim>\<open>copy\<close>, \<^verbatim>\<open>pd.concat\<close>, \<^verbatim>\<open>pd.DataFrame()\<close>) allocate a new object; the
  assignments \<^verbatim>\<open>df.columns = ...\<close> and \<^verbatim>\<open>df[label] = ...\<close> overwrite the object their
  variable refers to. The consecutive assignments to one variable are one update.
\<close>

datatype obj =
    EccData "ecc_row list"
  | BwData "bw_row list"
  | CustomerRollups "customer_rollup frame"
  | Customers "customer frame"
  | ProductRollups "product_rollup frame"
  | Products "product frame"
  | Sales "sale frame"

type_synonym ref = nat
type_synonym store = "obj list"

definition new :: "obj \<Rightarrow> store \<Rightarrow> ref \<times> store" where
  "new v h = (length h, h @ [v])"

definition modify :: "ref \<Rightarrow> (obj \<Rightarrow> obj) \<Rightarrow> store \<Rightarrow> store" where
  "modify r f h = h[r := f (h ! r)]"

text \<open>Reading a frame through a reference; a reference to another kind of object reads as empty.\<close>

definition ecc_at :: "store \<Rightarrow> ref \<Rightarrow> ecc_row list" where
  "ecc_at h r = (case h ! r of EccData df \<Rightarrow> df | _ \<Rightarrow> [])"

definition bw_at :: "store \<Rightarrow> ref \<Rightarrow> bw_row list" where
  "bw_at h r = (case h ! r of BwData df \<Rightarrow> df | _ \<Rightarrow> [])"

definition customer_rollups_at :: "store \<Rightarrow> ref \<Rightarrow> customer_rollup frame" where
  "customer_rollups_at h r = (case h ! r of CustomerRollups df \<Rightarrow> df | _ \<Rightarrow> DataFrame)"

definition product_rollups_at :: "store \<Rightarrow> ref \<Rightarrow> product_rollup frame" where
  "product_rollups_at h r = (case h ! r of ProductRollups df \<Rightarrow> df | _ \<Rightarrow> DataFrame)"

definition sales_at :: "store \<Rightarrow> ref \<Rightarrow> sale frame" where
  "sales_at h r = (case h ! r of Sales df \<Rightarrow> df | _ \<Rightarrow> DataFrame)"

text \<open>An in-place update of a frame, as an update of the object that holds it.\<close>

definition on_customer_rollups :: "(customer_rollup frame \<Rightarrow> customer_rollup frame) \<Rightarrow> obj \<Rightarrow> obj" where
  "on_customer_rollups f v = (case v of CustomerRollups df \<Rightarrow> CustomerRollups (f df) | _ \<Rightarrow> v)"

definition on_customers :: "(customer frame \<Rightarrow> customer frame) \<Rightarrow> obj \<Rightarrow> obj" where
  "on_customers f v = (case v of Customers df \<Rightarrow> Customers (f df) | _ \<Rightarrow> v)"

definition on_product_rollups :: "(product_rollup frame \<Rightarrow> product_rollup frame) \<Rightarrow> obj \<Rightarrow> obj" where
  "on_product_rollups f v = (case v of ProductRollups df \<Rightarrow> ProductRollups (f df) | _ \<Rightarrow> v)"

definition on_products :: "(product frame \<Rightarrow> product frame) \<Rightarrow> obj \<Rightarrow> obj" where
  "on_products f v = (case v of Products df \<Rightarrow> Products (f df) | _ \<Rightarrow> v)"

definition on_sales :: "(sale frame \<Rightarrow> sale frame) \<Rightarrow> obj \<Rightarrow> obj" where
  "on_sales f v = (case v of Sales df \<Rightarrow> Sales (f df) | _ \<Rightarrow> v)"

text \<open>
  \<^verbatim>\<open>process_customer_data\<close> on the store: \<open>ecc_data\<close> and \<open>bw_data\<close> are the references
  the caller passes, and the result is the reference of the returned frame.
\<close>

definition process_customer_data_store ::
    "timestamp \<Rightarrow> timestamp \<Rightarrow> ref \<Rightarrow> ref \<Rightarrow> store \<Rightarrow> (error + ref) \<times> store" where
  "process_customer_data_store created updated ecc_data bw_data h0 =
     (let (customer_data, h1) =
            (if \<not> empty (ecc_at h0 ecc_data)
             then let (ecc_customers, h) = new (CustomerRollups (ecc_customers_agg (ecc_at h0 ecc_data))) h0
                  in ([ecc_customers], modify ecc_customers (on_customer_rollups ecc_customers_inplace) h)
             else ([], h0));
          (customer_data, h2) =
            (if \<not> empty (bw_at h1 bw_data)
             then let (bw_customers, h) = new (CustomerRollups (bw_customers_agg (bw_at h1 bw_data))) h1
                  in (customer_data @ [bw_customers],
                      modify bw_customers (on_customer_rollups bw_customers_inplace) h)
             else (customer_data, h1))
      in if customer_data \<noteq> []
         then let (combined_customers, h3) =
                    new (CustomerRollups (concat_frames (map (customer_rollups_at h2) customer_data))) h2
              in (case final_customers_agg (customer_rollups_at h3 combined_customers) of
                    Inl e \<Rightarrow> (Inl e, h3)
                  | Inr aggregated \<Rightarrow>
                      let (final_customers, h4) = new (Customers aggregated) h3
                      in (Inr final_customers,
                          modify final_customers (on_customers (customer_metadata created updated)) h4))
         else let (empty_frame, h3) = new (Customers DataFrame) h2 in (Inr empty_frame, h3))"

definition process_product_data_store ::
    "timestamp \<Rightarrow> timestamp \<Rightarrow> ref \<Rightarrow> ref \<Rightarrow> store \<Rightarrow> (error + ref) \<times> store" where
  "process_product_data_store created updated ecc_data bw_data h0 =
     (let (product_data, h1) =
            (if \<not> empty (ecc_at h0 ecc_data)
             then let (ecc_products, h) = new (ProductRollups (ecc_products_agg (ecc_at h0 ecc_data))) h0
                  in ([ecc_products], modify ecc_products (on_product_rollups ecc_products_inplace) h)
             else ([], h0));
          (product_data, h2) =
            (if \<not> empty (bw_at h1 bw_data)
             then let (bw_products, h) = new (ProductRollups (bw_products_agg (bw_at h1 bw_data))) h1
                  in (product_data @ [bw_products],
                      modify bw_products (on_product_rollups bw_products_inplace) h)
             else (product_data, h1))
      in if product_data \<noteq> []
         then let (combined_products, h3) =
                    new (ProductRollups (concat_frames (map (product_rollups_at h2) product_data))) h2
              in (case final_products_agg (product_rollups_at h3 combined_products) of
                    Inl e \<Rightarrow> (Inl e, h3)
                  | Inr aggregated \<Rightarrow>
                      let (final_products, h4) = new (Products aggregated) h3
                      in (Inr final_products,
                          modify final_products (on_products (product_metadata created updated)) h4))
         else let (empty_frame, h3) = new (Products DataFrame) h2 in (Inr empty_frame, h3))"

definition process_sales_data_store :: "timestamp \<Rightarrow> ref \<Rightarrow> ref \<Rightarrow> store \<Rightarrow> (error + ref) \<times> store" where
  "process_sales_data_store created ecc_data bw_data h0 =
     (let (sales_data, h1) =
            (if \<not> empty (ecc_at h0 ecc_data)
             then let (ecc_sales, h) = new (Sales (ecc_sales_copy (ecc_at h0 ecc_data))) h0
                  in ([ecc_sales], modify ecc_sales (on_sales ecc_sales_inplace) h)
             else ([], h0));
          (sales_data, h2) =
            (if \<not> empty (bw_at h1 bw_data)
             then let (bw_sales, h) = new (Sales (bw_sales_copy (bw_at h1 bw_data))) h1
                  in (sales_data @ [bw_sales], modify bw_sales (on_sales bw_sales_inplace) h)
             else (sales_data, h1))
      in if sales_data \<noteq> []
         then let (combined_sales, h3) = new (Sales (concat_frames (map (sales_at h2) sales_data))) h2
              in (Inr combined_sales, modify combined_sales (on_sales (sales_metadata created)) h3)
         else let (empty_frame, h3) = new (Sales DataFrame) h2 in (Inr empty_frame, h3))"

section \<open>Sample inputs\<close>

text \<open>
  One ECC order line and one BW summary row of customer \<^verbatim>\<open>C1\<close> and product \<^verbatim>\<open>P1\<close>; the
  BW row has sales quantity 0. \<open>bw_c2\<close> is the same BW row for customer \<^verbatim>\<open>C2\<close>, and
  \<open>bw_negative_zero\<close> the same BW row with the negative zero as its quantity.
\<close>

definition ecc_c1 :: ecc_row where
  "ecc_c1 = \<lparr>ecc_CustomerID = Some ''C1'', ecc_OrderNumber = Some ''SO-1'', ecc_OrderDate = Some 5,
     ecc_ProductCode = Some ''P1'', ecc_Quantity = Number 10, ecc_UnitPrice = Some 10, ecc_TotalAmount = Some 100,
     ecc_Status = Some ''Open'', ecc_SalesRep = Some ''Ann'', ecc_Region = Some ''North'',
     ecc_ProcessedDate = Some 6\<rparr>"

definition bw_c1 :: bw_row where
  "bw_c1 = \<lparr>bw_CustomerID = Some ''C1'', bw_ProductCode = Some ''P1'', bw_SalesAmount = Some 50,
     bw_SalesQuantity = Number 0, bw_SalesDate = Some 7, bw_SalesRep = Some ''Bob'', bw_Region = Some ''South'',
     bw_Channel = Some ''Web'', bw_ProductCategory = Some ''Tools'', bw_CustomerSegment = Some ''Gold'',
     bw_ProcessedDate = Some 8\<rparr>"

definition bw_c2 :: bw_row where
  "bw_c2 = bw_c1\<lparr>bw_CustomerID := Some ''C2''\<rparr>"


text \<open>
  Collaborators whose world is the list of the statements committed so far: the reads
  return fixed rows, the vault is unreachable, and every call to the search service
  succeeds.
\<close>

definition sample_environ :: "string \<rightharpoonup> string" where
  "sample_environ = [''SQL_CONNECTION_STRING'' \<mapsto> ''Driver=SQL''] "

definition sample_now :: readings where
  "sample_now = \<lparr>customers_created = 1, customers_updated = 2, products_created = 1, products_updated = 2,
                  sales_created = 3\<rparr>"

definition sample_collaborators :: "bw_row list \<Rightarrow> statement list collaborators" where
  "sample_collaborators bw =
     \<lparr>get_secret = (\<lambda>name w. (Inl (ExternalError ''vault unreachable''), w)),
      read_ecc = (\<lambda>c w. (Inr [ecc_c1], w)),
      read_bw = (\<lambda>c w. (Inr bw, w)),
      run_transaction = (\<lambda>c statements w. (Inr (), w @ statements)),
      read_documents = (\<lambda>q c w. (Inr [], w)),
      create_or_update_index = (\<lambda>k i w. (Inr (), w)),
      search_all_ids = (\<lambda>k i w. (Inr [], w)),
      delete_documents = (\<lambda>k i ids w. (Inr (), w)),
      upload = (\<lambda>k i batch w. (Inr (map (\<lambda>d. True) batch), w))\<rparr>"




text \<open>A store that holds the two sample inputs.\<close>

definition sample_store :: store where
  "sample_store = [EccData [ecc_c1], BwData [bw_c1]]"

section \<open>Properties of the reconciliation\<close>

subsection \<open>Groups\<close>

lemma set_dropna: "set (dropna xs) = {v. Some v \<in> set xs}"
  by (induction xs) (auto split: option.splits)

lemma distinct_group_keys: "distinct (group_keys key df)"
  by (simp add: group_keys_def)

lemma set_group_keys: "set (group_keys key df) = {k. Some k \<in> key ` set df}"
  by (simp add: group_keys_def set_dropna)

lemma group_keys_Nil: "group_keys key [] = []"
  by (simp add: group_keys_def)

lemma filter_map_key:
  assumes "distinct ks" and "\<And>k. key (mk k) = k"
  shows "filter (\<lambda>r. key r = k) (map mk ks) = (if k \<in> set ks then [mk k] else [])"
  using assms(1)
proof (induction ks)
  case Nil
  then show ?case by simp
next
  case (Cons a ks)
  then show ?case by (auto simp: assms(2) filter_empty_conv)
qed

lemma agg_max_pair:
  "agg_max [a, b] = (case (a, b) of (Some x, Some y) \<Rightarrow> Some (max x y) | (Some x, None) \<Rightarrow> Some x
                      | (None, Some y) \<Rightarrow> Some y | (None, None) \<Rightarrow> None)"
  by (simp add: agg_max_def max.commute split: option.splits)

subsection \<open>Customers\<close>

lemma rows_ecc_customers:
  "rows (ecc_customers ecc_data) = map (ecc_customer_row ecc_data) (group_keys ecc_CustomerID ecc_data)"
  by (simp add: ecc_customers_def ecc_customers_inplace_def setitem_def set_columns_def ecc_customers_agg_def ecc_customer_row_def)

lemma rows_bw_customers:
  "rows (bw_customers bw_data) = map (bw_customer_row bw_data) (group_keys bw_CustomerID bw_data)"
  by (simp add: bw_customers_def bw_customers_inplace_def setitem_def set_columns_def bw_customers_agg_def bw_customer_row_def)

lemma columns_ecc_customers:
  "columns (ecc_customers ecc_data) = [''CustomerID'', ''TotalOrders'', ''TotalSalesAmount'', ''LastOrderDate'',
                     ''Region'', ''SalesRep'', ''DataSource'']"
  by (simp add: ecc_customers_def ecc_customers_inplace_def setitem_def set_columns_def)

lemma columns_bw_customers:
  "columns (bw_customers bw_data) = [''CustomerID'', ''TotalSalesAmount'', ''TotalQuantity'', ''LastOrderDate'',
                        ''Region'', ''CustomerSegment'', ''SalesRep'', ''TotalOrders'', ''DataSource'']"
  by (simp add: bw_customers_def bw_customers_inplace_def setitem_def set_columns_def)

lemma cr_CustomerID_ecc_customer_row: "cr_CustomerID (ecc_customer_row ecc_data k) = k"
  by (simp add: ecc_customer_row_def ecc_customer_def Let_def)

lemma cr_CustomerID_bw_customer_row: "cr_CustomerID (bw_customer_row bw_data k) = k"
  by (simp add: bw_customer_row_def bw_customer_def Let_def)

lemma process_customer_data_bw:
  assumes "bw_data \<noteq> []"
  shows "process_customer_data created updated ecc_data bw_data =
     Inr \<lparr>columns = [''CustomerID'', ''TotalOrders'', ''TotalSalesAmount'', ''LastOrderDate'',
                              ''Region'', ''SalesRep'', ''CustomerSegment'', ''CreatedDate'',
                              ''UpdatedDate'', ''IsActive''],
          rows = map (customer_row created updated (combined_customers ecc_data bw_data))
               (sort (remdups (map cr_CustomerID (combined_customers ecc_data bw_data))))\<rparr>"
proof (cases "ecc_data = []")
  case True
  then show ?thesis using assms
    by (simp add: process_customer_data_def empty_def concat_frames_def final_customers_agg_def
        missing_columns_def columns_bw_customers rows_ecc_customers combined_customers_def group_keys_Nil
        customer_metadata_def setitem_def customer_row_def)
next
  case False
  then show ?thesis using assms
    by (simp add: process_customer_data_def empty_def concat_frames_def final_customers_agg_def
        missing_columns_def columns_bw_customers columns_ecc_customers combined_customers_def
        customer_metadata_def setitem_def customer_row_def)
qed

lemma process_customer_data_ecc_only:
  assumes "ecc_data \<noteq> []"
  shows "process_customer_data created updated ecc_data [] = Inl (KeyError [''CustomerSegment''])"
  using assms
  by (simp add: process_customer_data_def empty_def concat_frames_def final_customers_agg_def
        missing_columns_def columns_ecc_customers)

lemma filter_combined_customers:
  "filter (\<lambda>r. cr_CustomerID r = k) (combined_customers ecc_data bw_data) =
     (if k \<in> set (group_keys ecc_CustomerID ecc_data) then [ecc_customer_row ecc_data k] else []) @
     (if k \<in> set (group_keys bw_CustomerID bw_data) then [bw_customer_row bw_data k] else [])"
  by (simp add: combined_customers_def rows_ecc_customers rows_bw_customers
      filter_map_key [OF distinct_group_keys] cr_CustomerID_ecc_customer_row cr_CustomerID_bw_customer_row)

lemma keys_combined_customers:
  "set (map cr_CustomerID (combined_customers ecc_data bw_data)) =
     set (group_keys ecc_CustomerID ecc_data) \<union> set (group_keys bw_CustomerID bw_data)"
  by (auto simp: combined_customers_def rows_ecc_customers rows_bw_customers
      cr_CustomerID_ecc_customer_row cr_CustomerID_bw_customer_row image_iff)

lemma cu_CustomerID_customer_row: "cu_CustomerID (customer_row c u rs k) = k"
  by (simp add: customer_row_def final_customer_def Let_def)

text \<open>
  Claim C3. For a customer id that occurs in both the ECC and the BW input, customer
  reconciliation succeeds and returns exactly one row for the id. Its \<^verbatim>\<open>TotalOrders\<close>
  and \<^verbatim>\<open>TotalSalesAmount\<close> are the sums of the two per-source rollup rows of the id, and
  its \<^verbatim>\<open>LastOrderDate\<close> is the later of the two (a null date counts as absent). In
  particular, one ECC order of \<^verbatim>\<open>C1\<close> with total amount 100 and one BW row of \<^verbatim>\<open>C1\<close> with
  sales amount 50 give a single row with 1 order and a total of 150.
\<close>

theorem customer_in_both_sources:
  "(Some k \<in> ecc_CustomerID ` set ecc_data \<and> Some k \<in> bw_CustomerID ` set bw_data \<longrightarrow>
     (\<exists>out r e b ne nb. process_customer_data created updated ecc_data bw_data = Inr out
        \<and> filter (\<lambda>x. cu_CustomerID x = k) (rows out) = [r]
        \<and> filter (\<lambda>x. cr_CustomerID x = k) (rows (ecc_customers ecc_data)) = [e]
        \<and> filter (\<lambda>x. cr_CustomerID x = k) (rows (bw_customers bw_data)) = [b]
        \<and> cr_TotalOrders e = Some ne \<and> cr_TotalOrders b = Some nb
        \<and> cu_TotalOrders r = ne + nb
        \<and> cu_TotalSalesAmount r = cr_TotalSalesAmount e + cr_TotalSalesAmount b
        \<and> cu_LastOrderDate r =
            (case (cr_LastOrderDate e, cr_LastOrderDate b) of
               (Some x, Some y) \<Rightarrow> Some (max x y) | (Some x, None) \<Rightarrow> Some x
             | (None, Some y) \<Rightarrow> Some y | (None, None) \<Rightarrow> None)))
   \<and> (ecc_CustomerID e0 = Some ''C1'' \<and> ecc_OrderNumber e0 = Some n0 \<and> ecc_TotalAmount e0 = Some 100 \<and>
      bw_CustomerID b0 = Some ''C1'' \<and> bw_SalesAmount b0 = Some 50 \<longrightarrow>
     (\<exists>out r. process_customer_data created updated [e0] [b0] = Inr out \<and> rows out = [r]
        \<and> cu_CustomerID r = ''C1'' \<and> cu_TotalOrders r = 1 \<and> cu_TotalSalesAmount r = 150))"
proof (intro conjI impI)
  assume "Some k \<in> ecc_CustomerID ` set ecc_data \<and> Some k \<in> bw_CustomerID ` set bw_data"
  then have e: "Some k \<in> ecc_CustomerID ` set ecc_data" and b: "Some k \<in> bw_CustomerID ` set bw_data"
    by simp_all
  let ?comb = "combined_customers ecc_data bw_data"
  let ?e = "ecc_customer_row ecc_data k" and ?b = "bw_customer_row bw_data k"
  let ?r = "customer_row created updated ?comb k"
  from e have ke: "k \<in> set (group_keys ecc_CustomerID ecc_data)" by (simp add: set_group_keys)
  from b have kb: "k \<in> set (group_keys bw_CustomerID bw_data)" by (simp add: set_group_keys)
  from b have ne: "bw_data \<noteq> []" by auto
  have g: "filter (\<lambda>r. cr_CustomerID r = k) ?comb = [?e, ?b]"
    using ke kb by (simp add: filter_combined_customers)
  have kk: "k \<in> set (sort (remdups (map cr_CustomerID ?comb)))"
    using ke keys_combined_customers [of ecc_data bw_data] by simp
  have one: "filter (\<lambda>r. cu_CustomerID r = k)
        (map (customer_row created updated ?comb) (sort (remdups (map cr_CustomerID ?comb)))) = [?r]"
    using kk by (subst filter_map_key) (simp_all add: cu_CustomerID_customer_row)
  have fe: "filter (\<lambda>x. cr_CustomerID x = k) (rows (ecc_customers ecc_data)) = [?e]"
    using ke by (simp add: rows_ecc_customers filter_map_key [OF distinct_group_keys] cr_CustomerID_ecc_customer_row)
  have fb: "filter (\<lambda>x. cr_CustomerID x = k) (rows (bw_customers bw_data)) = [?b]"
    using kb by (simp add: rows_bw_customers filter_map_key [OF distinct_group_keys] cr_CustomerID_bw_customer_row)
  have to: "cr_TotalOrders ?e = Some (agg_count (map ecc_OrderNumber (group_rows ecc_CustomerID k ecc_data)))"
    by (simp add: ecc_customer_row_def ecc_customer_def Let_def)
  have tb: "cr_TotalOrders ?b = Some 0"
    by (simp add: bw_customer_row_def)
  have r1: "cu_TotalOrders ?r = agg_count (map ecc_OrderNumber (group_rows ecc_CustomerID k ecc_data)) + 0"
    by (simp add: customer_row_def final_customer_def Let_def g agg_sum_def to tb)
  have r2: "cu_TotalSalesAmount ?r = cr_TotalSalesAmount ?e + cr_TotalSalesAmount ?b"
    by (simp add: customer_row_def final_customer_def Let_def g)
  have r3: "cu_LastOrderDate ?r = (case (cr_LastOrderDate ?e, cr_LastOrderDate ?b) of
               (Some x, Some y) \<Rightarrow> Some (max x y) | (Some x, None) \<Rightarrow> Some x
             | (None, Some y) \<Rightarrow> Some y | (None, None) \<Rightarrow> None)"
    by (simp add: customer_row_def final_customer_def Let_def g agg_max_pair)
  obtain out where o: "process_customer_data created updated ecc_data bw_data = Inr out"
    and ro: "rows out = map (customer_row created updated ?comb) (sort (remdups (map cr_CustomerID ?comb)))"
    using process_customer_data_bw [OF ne, of created updated ecc_data] by simp
  have "process_customer_data created updated ecc_data bw_data = Inr out
        \<and> filter (\<lambda>x. cu_CustomerID x = k) (rows out) = [?r]
        \<and> filter (\<lambda>x. cr_CustomerID x = k) (rows (ecc_customers ecc_data)) = [?e]
        \<and> filter (\<lambda>x. cr_CustomerID x = k) (rows (bw_customers bw_data)) = [?b]
        \<and> cr_TotalOrders ?e = Some (agg_count (map ecc_OrderNumber (group_rows ecc_CustomerID k ecc_data)))
        \<and> cr_TotalOrders ?b = Some 0
        \<and> cu_TotalOrders ?r = agg_count (map ecc_OrderNumber (group_rows ecc_CustomerID k ecc_data)) + 0
        \<and> cu_TotalSalesAmount ?r = cr_TotalSalesAmount ?e + cr_TotalSalesAmount ?b
        \<and> cu_LastOrderDate ?r =
            (case (cr_LastOrderDate ?e, cr_LastOrderDate ?b) of
               (Some x, Some y) \<Rightarrow> Some (max x y) | (Some x, None) \<Rightarrow> Some x
             | (None, Some y) \<Rightarrow> Some y | (None, None) \<Rightarrow> None)"
    using o ro one fe fb to tb r1 r2 r3 by (simp only: simp_thms)
  then show "\<exists>out r e b ne nb. process_customer_data created updated ecc_data bw_data = Inr out
        \<and> filter (\<lambda>x. cu_CustomerID x = k) (rows out) = [r]
        \<and> filter (\<lambda>x. cr_CustomerID x = k) (rows (ecc_customers ecc_data)) = [e]
        \<and> filter (\<lambda>x. cr_CustomerID x = k) (rows (bw_customers bw_data)) = [b]
        \<and> cr_TotalOrders e = Some ne \<and> cr_TotalOrders b = Some nb
        \<and> cu_TotalOrders r = ne + nb
        \<and> cu_TotalSalesAmount r = cr_TotalSalesAmount e + cr_TotalSalesAmount b
        \<and> cu_LastOrderDate r =
            (case (cr_LastOrderDate e, cr_LastOrderDate b) of
               (Some x, Some y) \<Rightarrow> Some (max x y) | (Some x, None) \<Rightarrow> Some x
             | (None, Some y) \<Rightarrow> Some y | (None, None) \<Rightarrow> None)"
    by blast
next
  assume h: "ecc_CustomerID e0 = Some ''C1'' \<and> ecc_OrderNumber e0 = Some n0 \<and> ecc_TotalAmount e0 = Some 100 \<and>
      bw_CustomerID b0 = Some ''C1'' \<and> bw_SalesAmount b0 = Some 50"
  have ke: "group_keys ecc_CustomerID [e0] = [''C1'']" and kb: "group_keys bw_CustomerID [b0] = [''C1'']"
    using h by (simp_all add: group_keys_def)
  have c: "combined_customers [e0] [b0] = [ecc_customer_row [e0] ''C1'', bw_customer_row [b0] ''C1'']"
    by (simp add: combined_customers_def rows_ecc_customers rows_bw_customers ke kb)
  have ks: "sort (remdups (map cr_CustomerID (combined_customers [e0] [b0]))) = [''C1'']"
    by (simp add: c cr_CustomerID_ecc_customer_row cr_CustomerID_bw_customer_row)
  show "\<exists>out r. process_customer_data created updated [e0] [b0] = Inr out \<and> rows out = [r]
        \<and> cu_CustomerID r = ''C1'' \<and> cu_TotalOrders r = 1 \<and> cu_TotalSalesAmount r = 150"
    using h
    by (simp add: process_customer_data_bw ks c customer_row_def final_customer_def Let_def
        ecc_customer_row_def bw_customer_row_def ecc_customer_def bw_customer_def group_rows_def
        agg_sum_def agg_count_def)
qed

text \<open>Customer \<^verbatim>\<open>C1\<close> in both sample inputs: one row, 1 order, total 150.\<close>

theorem customer_in_both_sources_witness:
  "Some ''C1'' \<in> ecc_CustomerID ` set [ecc_c1] \<and> Some ''C1'' \<in> bw_CustomerID ` set [bw_c1] \<and>
   ecc_TotalAmount ecc_c1 = Some 100 \<and> bw_SalesAmount bw_c1 = Some 50 \<and>
   (\<exists>out r. process_customer_data 1 2 [ecc_c1] [bw_c1] = Inr out \<and> rows out = [r]
        \<and> cu_CustomerID r = ''C1'' \<and> cu_TotalOrders r = 1 \<and> cu_TotalSalesAmount r = 150)"
  using customer_in_both_sources [of "''C1''" "[ecc_c1]" "[bw_c1]" 1 2 ecc_c1 "''SO-1''" bw_c1, THEN conjunct2]
  by (simp add: ecc_c1_def bw_c1_def)

lemma carried_ecc:
  assumes "k \<in> set (group_keys ecc_CustomerID ecc_data)" "k \<notin> set (group_keys bw_CustomerID bw_data)"
  shows "carried (ecc_customer_row ecc_data k)
           (customer_row created updated (combined_customers ecc_data bw_data) k)"
  using assms
  by (simp add: carried_def customer_row_def final_customer_def Let_def filter_combined_customers
      agg_sum_def agg_max_def agg_first_def ecc_customer_row_def ecc_customer_def split: option.splits)

lemma carried_bw:
  assumes "k \<notin> set (group_keys ecc_CustomerID ecc_data)" "k \<in> set (group_keys bw_CustomerID bw_data)"
  shows "carried (bw_customer_row bw_data k)
           (customer_row created updated (combined_customers ecc_data bw_data) k)"
  using assms
  by (simp add: carried_def customer_row_def final_customer_def Let_def filter_combined_customers
      agg_sum_def agg_max_def agg_first_def bw_customer_row_def bw_customer_def split: option.splits)

lemma distinct_keys_combined_customers:
  assumes "set (group_keys ecc_CustomerID ecc_data) \<inter> set (group_keys bw_CustomerID bw_data) = {}"
  shows "distinct (map cr_CustomerID (combined_customers ecc_data bw_data))"
proof -
  have "map cr_CustomerID (combined_customers ecc_data bw_data) =
          group_keys ecc_CustomerID ecc_data @ group_keys bw_CustomerID bw_data"
    by (simp add: combined_customers_def rows_ecc_customers rows_bw_customers comp_def
        cr_CustomerID_ecc_customer_row cr_CustomerID_bw_customer_row)
  then show ?thesis using assms by (simp add: distinct_group_keys)
qed

text \<open>
  Claim C4. When both inputs are non-empty and no customer id occurs in both, customer
  reconciliation succeeds and its rows are the rows of the two per-source rollups, one
  for one: every rollup row is carried into a reconciled row with the same id, order
  count, sales amount, last order date, region, sales representative and segment, every
  reconciled row comes from a rollup row in this way, and there are as many reconciled
  rows as rollup rows.
\<close>

theorem customers_disjoint_union:
  assumes "ecc_data \<noteq> []" and "bw_data \<noteq> []"
    and "set (dropna (map ecc_CustomerID ecc_data)) \<inter> set (dropna (map bw_CustomerID bw_data)) = {}"
  shows "\<exists>out. process_customer_data created updated ecc_data bw_data = Inr out
      \<and> length (rows out) = length (rows (ecc_customers ecc_data)) + length (rows (bw_customers bw_data))
      \<and> (\<forall>s \<in> set (rows (ecc_customers ecc_data)) \<union> set (rows (bw_customers bw_data)).
            \<exists>r \<in> set (rows out). carried s r)
      \<and> (\<forall>r \<in> set (rows out).
            \<exists>s \<in> set (rows (ecc_customers ecc_data)) \<union> set (rows (bw_customers bw_data)). carried s r)"
proof -
  let ?ke = "group_keys ecc_CustomerID ecc_data" and ?kb = "group_keys bw_CustomerID bw_data"
  let ?comb = "combined_customers ecc_data bw_data"
  let ?ks = "sort (remdups (map cr_CustomerID ?comb))"
  have dj: "set ?ke \<inter> set ?kb = {}"
    using assms(3) by (simp add: group_keys_def)
  have sks: "set ?ks = set ?ke \<union> set ?kb"
    using keys_combined_customers [of ecc_data bw_data] by simp
  have "length ?ks = length (map cr_CustomerID ?comb)"
    using distinct_keys_combined_customers [OF dj] by (simp add: distinct_remdups_id)
  then have len: "length ?ks = length ?ke + length ?kb"
    by (simp add: combined_customers_def rows_ecc_customers rows_bw_customers)
  have fwd: "\<exists>r \<in> customer_row created updated ?comb ` set ?ks. carried s r"
    if "s \<in> set (rows (ecc_customers ecc_data)) \<union> set (rows (bw_customers bw_data))" for s
  proof -
    from that consider k where "k \<in> set ?ke" "s = ecc_customer_row ecc_data k"
      | k where "k \<in> set ?kb" "s = bw_customer_row bw_data k"
      by (auto simp: rows_ecc_customers rows_bw_customers)
    then show ?thesis
    proof cases
      case 1
      with dj have "k \<notin> set ?kb" by auto
      with 1 show ?thesis using carried_ecc [of k ecc_data bw_data created updated] sks by blast
    next
      case 2
      with dj have "k \<notin> set ?ke" by auto
      with 2 show ?thesis using carried_bw [of k ecc_data bw_data created updated] sks by blast
    qed
  qed
  have bwd: "\<exists>s \<in> set (rows (ecc_customers ecc_data)) \<union> set (rows (bw_customers bw_data)). carried s r"
    if "r \<in> customer_row created updated ?comb ` set ?ks" for r
  proof -
    from that obtain k where k: "k \<in> set ?ks" "r = customer_row created updated ?comb k" by auto
    with sks consider "k \<in> set ?ke" | "k \<in> set ?kb" by auto
    then show ?thesis
    proof cases
      case 1
      with dj have "k \<notin> set ?kb" by auto
      with 1 k show ?thesis using carried_ecc [of k ecc_data bw_data created updated]
        by (auto simp: rows_ecc_customers)
    next
      case 2
      with dj have "k \<notin> set ?ke" by auto
      with 2 k show ?thesis using carried_bw [of k ecc_data bw_data created updated]
        by (auto simp: rows_bw_customers)
    qed
  qed
  show ?thesis
    unfolding process_customer_data_bw [OF assms(2)]
    using len fwd bwd by (simp add: rows_ecc_customers rows_bw_customers)
qed

text \<open>The sample ECC row of \<^verbatim>\<open>C1\<close> and the sample BW row of \<^verbatim>\<open>C2\<close>: two reconciled rows.\<close>

theorem customers_disjoint_union_witness:
  "[ecc_c1] \<noteq> [] \<and> [bw_c2] \<noteq> [] \<and>
   set (dropna (map ecc_CustomerID [ecc_c1])) \<inter> set (dropna (map bw_CustomerID [bw_c2])) = {} \<and>
   (\<exists>out. process_customer_data 1 2 [ecc_c1] [bw_c2] = Inr out \<and> length (rows out) = 2)"
  using customers_disjoint_union [of "[ecc_c1]" "[bw_c2]" 1 2]
  by (auto simp add: ecc_c1_def bw_c1_def bw_c2_def rows_ecc_customers rows_bw_customers group_keys_def)

lemma customers_one_row_per_id:
  assumes "bw_data \<noteq> []"
  shows "\<exists>out. process_customer_data created updated ecc_data bw_data = Inr out
      \<and> distinct (map cu_CustomerID (rows out))
      \<and> set (map cu_CustomerID (rows out)) =
          {k. Some k \<in> ecc_CustomerID ` set ecc_data \<or> Some k \<in> bw_CustomerID ` set bw_data}"
proof -
  let ?comb = "combined_customers ecc_data bw_data"
  let ?ks = "sort (remdups (map cr_CustomerID ?comb))"
  have m: "map cu_CustomerID (map (customer_row created updated ?comb) ?ks) = ?ks"
    by (simp add: comp_def cu_CustomerID_customer_row)
  have "set ?ks = set (group_keys ecc_CustomerID ecc_data) \<union> set (group_keys bw_CustomerID bw_data)"
    using keys_combined_customers [of ecc_data bw_data] by simp
  then have s: "set ?ks = {k. Some k \<in> ecc_CustomerID ` set ecc_data \<or> Some k \<in> bw_CustomerID ` set bw_data}"
    by (simp add: set_group_keys Collect_disj_eq)
  have d: "distinct ?ks" by simp
  show ?thesis
    unfolding process_customer_data_bw [OF assms]
    by (intro exI conjI, rule refl) (simp_all only: frame.simps m s d)
qed

subsection \<open>Products\<close>

lemma rows_ecc_products:
  "rows (ecc_products ecc_data) = map (ecc_product_row ecc_data) (group_keys ecc_ProductCode ecc_data)"
  by (simp add: ecc_products_def ecc_products_inplace_def setitem_def set_columns_def ecc_products_agg_def ecc_product_row_def)

lemma rows_bw_products:
  "rows (bw_products bw_data) = map (bw_product_row bw_data) (group_keys bw_ProductCode bw_data)"
  by (simp add: bw_products_def bw_products_inplace_def setitem_def set_columns_def bw_products_agg_def bw_product_row_def)

lemma columns_ecc_products:
  "columns (ecc_products ecc_data) =
     [''ProductCode'', ''TotalQuantitySold'', ''TotalSalesAmount'', ''UnitPrice'', ''DataSource'']"
  by (simp add: ecc_products_def ecc_products_inplace_def setitem_def set_columns_def)

lemma columns_bw_products:
  "columns (bw_products bw_data) =
     [''ProductCode'', ''TotalQuantitySold'', ''TotalSalesAmount'', ''ProductCategory'', ''UnitPrice'',
      ''DataSource'']"
  by (simp add: bw_products_def bw_products_inplace_def setitem_def set_columns_def)

lemma pr_ProductCode_ecc_product_row: "pr_ProductCode (ecc_product_row ecc_data k) = k"
  by (simp add: ecc_product_row_def ecc_product_def Let_def)

lemma pr_ProductCode_bw_product_row: "pr_ProductCode (bw_product_row bw_data k) = k"
  by (simp add: bw_product_row_def bw_product_def Let_def)

lemma process_product_data_bw:
  assumes "bw_data \<noteq> []"
  shows "process_product_data created updated ecc_data bw_data =
     Inr \<lparr>columns = [''ProductCode'', ''TotalQuantitySold'', ''TotalSalesAmount'', ''UnitPrice'',
                     ''ProductCategory'', ''CreatedDate'', ''UpdatedDate'', ''IsActive''],
          rows = map (product_row created updated (combined_products ecc_data bw_data))
               (sort (remdups (map pr_ProductCode (combined_products ecc_data bw_data))))\<rparr>"
proof (cases "ecc_data = []")
  case True
  then show ?thesis using assms
    by (simp add: process_product_data_def empty_def concat_frames_def final_products_agg_def
        missing_columns_def columns_bw_products rows_ecc_products combined_products_def group_keys_Nil
        product_metadata_def setitem_def product_row_def)
next
  case False
  then show ?thesis using assms
    by (simp add: process_product_data_def empty_def concat_frames_def final_products_agg_def
        missing_columns_def columns_bw_products columns_ecc_products combined_products_def
        product_metadata_def setitem_def product_row_def)
qed

lemma process_product_data_ecc_only:
  assumes "ecc_data \<noteq> []"
  shows "process_product_data created updated ecc_data [] = Inl (KeyError [''ProductCategory''])"
  using assms
  by (simp add: process_product_data_def empty_def concat_frames_def final_products_agg_def
        missing_columns_def columns_ecc_products)

lemma filter_combined_products:
  "filter (\<lambda>r. pr_ProductCode r = k) (combined_products ecc_data bw_data) =
     (if k \<in> set (group_keys ecc_ProductCode ecc_data) then [ecc_product_row ecc_data k] else []) @
     (if k \<in> set (group_keys bw_ProductCode bw_data) then [bw_product_row bw_data k] else [])"
  by (simp add: combined_products_def rows_ecc_products rows_bw_products
      filter_map_key [OF distinct_group_keys] pr_ProductCode_ecc_product_row pr_ProductCode_bw_product_row)

lemma keys_combined_products:
  "set (map pr_ProductCode (combined_products ecc_data bw_data)) =
     set (group_keys ecc_ProductCode ecc_data) \<union> set (group_keys bw_ProductCode bw_data)"
  by (auto simp: combined_products_def rows_ecc_products rows_bw_products
      pr_ProductCode_ecc_product_row pr_ProductCode_bw_product_row image_iff)

lemma pd_ProductCode_product_row: "pd_ProductCode (product_row c u rs k) = k"
  by (simp add: product_row_def final_product_def Let_def)

lemma agg_mean_with_zero:
  "agg_mean [m, Some 0] = (case m of None \<Rightarrow> Some 0 | Some v \<Rightarrow> Some (v / 2))"
  by (simp add: agg_mean_def split: option.splits)

text \<open>
  Claim C1, as the code has it. For a product code that occurs in both inputs, product
  reconciliation succeeds and returns exactly one row for the code. The final
  aggregation takes the \<^verbatim>\<open>'mean'\<close> of the \<^verbatim>\<open>UnitPrice\<close> cells of the two rollup rows: the
  ECC rollup's mean line unit price and the 0 that the BW rollup carries. So the merged
  unit price is half the ECC mean, and 0 when the ECC mean is null. BW's 0 takes part in
  the average; it is not dropped.
\<close>

theorem product_unit_price_is_mean_of_rollups:
  assumes "Some k \<in> ecc_ProductCode ` set ecc_data" and "Some k \<in> bw_ProductCode ` set bw_data"
  shows "\<exists>out r e b. process_product_data created updated ecc_data bw_data = Inr out
        \<and> filter (\<lambda>x. pd_ProductCode x = k) (rows out) = [r]
        \<and> filter (\<lambda>x. pr_ProductCode x = k) (rows (ecc_products ecc_data)) = [e]
        \<and> filter (\<lambda>x. pr_ProductCode x = k) (rows (bw_products bw_data)) = [b]
        \<and> pr_UnitPrice e = agg_mean (map ecc_UnitPrice (group_rows ecc_ProductCode k ecc_data))
        \<and> pr_UnitPrice b = Some 0
        \<and> pd_UnitPrice r = agg_mean [pr_UnitPrice e, pr_UnitPrice b]
        \<and> pd_UnitPrice r = (case pr_UnitPrice e of None \<Rightarrow> Some 0 | Some m \<Rightarrow> Some (m / 2))"
proof -
  let ?comb = "combined_products ecc_data bw_data"
  let ?e = "ecc_product_row ecc_data k" and ?b = "bw_product_row bw_data k"
  let ?r = "product_row created updated ?comb k"
  from assms(1) have ke: "k \<in> set (group_keys ecc_ProductCode ecc_data)" by (simp add: set_group_keys)
  from assms(2) have kb: "k \<in> set (group_keys bw_ProductCode bw_data)" by (simp add: set_group_keys)
  from assms(2) have ne: "bw_data \<noteq> []" by auto
  have g: "filter (\<lambda>r. pr_ProductCode r = k) ?comb = [?e, ?b]"
    using ke kb by (simp add: filter_combined_products)
  have kk: "k \<in> set (sort (remdups (map pr_ProductCode ?comb)))"
    using ke keys_combined_products [of ecc_data bw_data] by simp
  have one: "filter (\<lambda>r. pd_ProductCode r = k)
        (map (product_row created updated ?comb) (sort (remdups (map pr_ProductCode ?comb)))) = [?r]"
    using kk by (subst filter_map_key) (simp_all add: pd_ProductCode_product_row)
  have fe: "filter (\<lambda>x. pr_ProductCode x = k) (rows (ecc_products ecc_data)) = [?e]"
    using ke by (simp add: rows_ecc_products filter_map_key [OF distinct_group_keys] pr_ProductCode_ecc_product_row)
  have fb: "filter (\<lambda>x. pr_ProductCode x = k) (rows (bw_products bw_data)) = [?b]"
    using kb by (simp add: rows_bw_products filter_map_key [OF distinct_group_keys] pr_ProductCode_bw_product_row)
  have ue: "pr_UnitPrice ?e = agg_mean (map ecc_UnitPrice (group_rows ecc_ProductCode k ecc_data))"
    by (simp add: ecc_product_row_def ecc_product_def Let_def)
  have ub: "pr_UnitPrice ?b = Some 0"
    by (simp add: bw_product_row_def)
  have r1: "pd_UnitPrice ?r = agg_mean [pr_UnitPrice ?e, pr_UnitPrice ?b]"
    by (simp add: product_row_def final_product_def Let_def g)
  have r2: "pd_UnitPrice ?r = (case pr_UnitPrice ?e of None \<Rightarrow> Some 0 | Some m \<Rightarrow> Some (m / 2))"
    unfolding r1 ub by (rule agg_mean_with_zero)
  obtain out where o: "process_product_data created updated ecc_data bw_data = Inr out"
    and ro: "rows out = map (product_row created updated ?comb) (sort (remdups (map pr_ProductCode ?comb)))"
    using process_product_data_bw [OF ne, of created updated ecc_data] by simp
  have "process_product_data created updated ecc_data bw_data = Inr out
        \<and> filter (\<lambda>x. pd_ProductCode x = k) (rows out) = [?r]
        \<and> filter (\<lambda>x. pr_ProductCode x = k) (rows (ecc_products ecc_data)) = [?e]
        \<and> filter (\<lambda>x. pr_ProductCode x = k) (rows (bw_products bw_data)) = [?b]
        \<and> pr_UnitPrice ?e = agg_mean (map ecc_UnitPrice (group_rows ecc_ProductCode k ecc_data))
        \<and> pr_UnitPrice ?b = Some 0
        \<and> pd_UnitPrice ?r = agg_mean [pr_UnitPrice ?e, pr_UnitPrice ?b]
        \<and> pd_UnitPrice ?r = (case pr_UnitPrice ?e of None \<Rightarrow> Some 0 | Some m \<Rightarrow> Some (m / 2))"
    using o ro one fe fb ue ub r1 r2 by (simp only: simp_thms)
  then show ?thesis by blast
qed

lemma product_sample_run:
  "process_product_data 1 2 [ecc_c1] [bw_c1] =
     Inr \<lparr>columns = [''ProductCode'', ''TotalQuantitySold'', ''TotalSalesAmount'', ''UnitPrice'',
                     ''ProductCategory'', ''CreatedDate'', ''UpdatedDate'', ''IsActive''],
          rows = [\<lparr>pd_ProductCode = ''P1'', pd_TotalQuantitySold = 10, pd_TotalSalesAmount = 150,
                   pd_UnitPrice = Some 5, pd_ProductCategory = Some ''Tools'', pd_CreatedDate = Some 1,
                   pd_UpdatedDate = Some 2, pd_IsActive = Some True\<rparr>]\<rparr>"
  by code_simp

lemma product_sample_rollup:
  "map pr_UnitPrice (rows (ecc_products [ecc_c1])) = [Some 10]"
  by code_simp

text \<open>Product \<^verbatim>\<open>P1\<close> in both sample inputs, with ECC unit price 10: the merged unit price is 5.\<close>

theorem product_unit_price_is_mean_of_rollups_witness:
  "Some ''P1'' \<in> ecc_ProductCode ` set [ecc_c1] \<and> Some ''P1'' \<in> bw_ProductCode ` set [bw_c1] \<and>
   (\<exists>out r. process_product_data 1 2 [ecc_c1] [bw_c1] = Inr out \<and> rows out = [r] \<and> pd_UnitPrice r = Some 5)"
proof -
  have h1: "Some ''P1'' \<in> ecc_ProductCode ` set [ecc_c1]" by (simp add: ecc_c1_def)
  have h2: "Some ''P1'' \<in> bw_ProductCode ` set [bw_c1]" by (simp add: bw_c1_def)
  from product_unit_price_is_mean_of_rollups [OF h1 h2, of 1 2]
  obtain out r where "process_product_data 1 2 [ecc_c1] [bw_c1] = Inr out"
    and "filter (\<lambda>x. pd_ProductCode x = ''P1'') (rows out) = [r]"
    by blast
  with product_sample_run have "rows out = [r] \<and> pd_UnitPrice r = Some 5"
    by auto
  with \<open>process_product_data 1 2 [ecc_c1] [bw_c1] = Inr out\<close> h1 h2 show ?thesis
    by blast
qed

text \<open>
  Claim C1 as stated fails: one ECC line of product \<^verbatim>\<open>P1\<close> with unit price 10 and one BW
  row of \<^verbatim>\<open>P1\<close> give a merged unit price of 5, while the ECC rollup's mean is 10.
\<close>

theorem product_unit_price_counterexample:
  "process_product_data 1 2 [ecc_c1] [bw_c1] =
     Inr \<lparr>columns = [''ProductCode'', ''TotalQuantitySold'', ''TotalSalesAmount'', ''UnitPrice'',
                     ''ProductCategory'', ''CreatedDate'', ''UpdatedDate'', ''IsActive''],
          rows = [\<lparr>pd_ProductCode = ''P1'', pd_TotalQuantitySold = 10, pd_TotalSalesAmount = 150,
                   pd_UnitPrice = Some 5, pd_ProductCategory = Some ''Tools'', pd_CreatedDate = Some 1,
                   pd_UpdatedDate = Some 2, pd_IsActive = Some True\<rparr>]\<rparr>
   \<and> map pr_UnitPrice (rows (ecc_products [ecc_c1])) = [Some 10]"
  using product_sample_run product_sample_rollup by simp

lemma products_one_row_per_code:
  assumes "bw_data \<noteq> []"
  shows "\<exists>out. process_product_data created updated ecc_data bw_data = Inr out
      \<and> distinct (map pd_ProductCode (rows out))
      \<and> set (map pd_ProductCode (rows out)) =
          {k. Some k \<in> ecc_ProductCode ` set ecc_data \<or> Some k \<in> bw_ProductCode ` set bw_data}"
proof -
  let ?comb = "combined_products ecc_data bw_data"
  let ?ks = "sort (remdups (map pr_ProductCode ?comb))"
  have m: "map pd_ProductCode (map (product_row created updated ?comb) ?ks) = ?ks"
    by (simp add: comp_def pd_ProductCode_product_row)
  have "set ?ks = set (group_keys ecc_ProductCode ecc_data) \<union> set (group_keys bw_ProductCode bw_data)"
    using keys_combined_products [of ecc_data bw_data] by simp
  then have s: "set ?ks = {k. Some k \<in> ecc_ProductCode ` set ecc_data \<or> Some k \<in> bw_ProductCode ` set bw_data}"
    by (simp add: set_group_keys Collect_disj_eq)
  have d: "distinct ?ks" by simp
  show ?thesis
    unfolding process_product_data_bw [OF assms]
    by (intro exI conjI, rule refl) (simp_all only: frame.simps m s d)
qed

subsection \<open>One input empty, both inputs empty\<close>

text \<open>
  Claim C5 and the code. With one ECC row and an empty BW input the concatenation has
  neither a \<^verbatim>\<open>CustomerSegment\<close> nor a \<^verbatim>\<open>ProductCategory\<close> column, so the final
  aggregation of customer and of product reconciliation raises: no row comes out for the
  customer or the product of the ECC row. (With a non-empty BW input there is exactly one
  row per key: \<open>customers_one_row_per_id\<close> and \<open>products_one_row_per_code\<close>.)
\<close>

theorem reconciliation_ecc_only_raises:
  "process_customer_data 1 2 [ecc_c1] [] = Inl (KeyError [''CustomerSegment'']) \<and>
   process_product_data 1 2 [ecc_c1] [] = Inl (KeyError [''ProductCategory''])"
  by (simp add: process_customer_data_ecc_only process_product_data_ecc_only)

text \<open>
  Claim C6. When both inputs are empty, customer, product and sales reconciliation each
  return the empty frame, which has no row; none raises.
\<close>

theorem reconciliation_of_empty_inputs:
  "process_customer_data created updated [] [] = Inr DataFrame \<and>
   process_product_data created updated [] [] = Inr DataFrame \<and>
   process_sales_data created [] [] = Inr DataFrame \<and>
   rows (DataFrame :: customer frame) = [] \<and> rows (DataFrame :: product frame) = [] \<and>
   rows (DataFrame :: sale frame) = []"
  by (simp add: process_customer_data_def process_product_data_def process_sales_data_def empty_def
      DataFrame_def)

subsection \<open>Sales\<close>










section \<open>Properties of the orchestrator\<close>

text \<open>
  Claim C7. The orchestrator reads ECC, reads BW, reconciles customers, products and
  sales, and writes, in this order. When a stage raises, the run ends with that error:
  the stages after it are not started, and the world is the one the last started
  collaborator call left, so before the write stage no statement has been executed. When
  every stage succeeds the run returns the summary string with the three row counts.
\<close>

theorem etl_stages_in_order:
  "(get_raw_sap_ecc_data (SapDataProcessor environ) x w = (Inl e, w1) \<longrightarrow>
      process_sap_data environ x now w = ([ReadECC], Inl e, w1))
   \<and> (get_raw_sap_ecc_data (SapDataProcessor environ) x w = (Inr ecc_data, w1) \<and>
      get_raw_sap_bw_data (SapDataProcessor environ) x w1 = (Inl e, w2) \<longrightarrow>
      process_sap_data environ x now w = ([ReadECC, ReadBW], Inl e, w2))
   \<and> (get_raw_sap_ecc_data (SapDataProcessor environ) x w = (Inr ecc_data, w1) \<and>
      get_raw_sap_bw_data (SapDataProcessor environ) x w1 = (Inr bw_data, w2) \<and>
      process_customer_data (customers_created now) (customers_updated now) ecc_data bw_data = Inl e \<longrightarrow>
      process_sap_data environ x now w = ([ReadECC, ReadBW, ReconcileCustomers], Inl e, w2))
   \<and> (get_raw_sap_ecc_data (SapDataProcessor environ) x w = (Inr ecc_data, w1) \<and>
      get_raw_sap_bw_data (SapDataProcessor environ) x w1 = (Inr bw_data, w2) \<and>
      process_customer_data (customers_created now) (customers_updated now) ecc_data bw_data = Inr customers_df \<and>
      process_product_data (products_created now) (products_updated now) ecc_data bw_data = Inl e \<longrightarrow>
      process_sap_data environ x now w =
        ([ReadECC, ReadBW, ReconcileCustomers, ReconcileProducts], Inl e, w2))
   \<and> (get_raw_sap_ecc_data (SapDataProcessor environ) x w = (Inr ecc_data, w1) \<and>
      get_raw_sap_bw_data (SapDataProcessor environ) x w1 = (Inr bw_data, w2) \<and>
      process_customer_data (customers_created now) (customers_updated now) ecc_data bw_data = Inr customers_df \<and>
      process_product_data (products_created now) (products_updated now) ecc_data bw_data = Inr products_df \<and>
      process_sales_data (sales_created now) ecc_data bw_data = Inl e \<longrightarrow>
      process_sap_data environ x now w =
        ([ReadECC, ReadBW, ReconcileCustomers, ReconcileProducts, ReconcileSales], Inl e, w2))
   \<and> (get_raw_sap_ecc_data (SapDataProcessor environ) x w = (Inr ecc_data, w1) \<and>
      get_raw_sap_bw_data (SapDataProcessor environ) x w1 = (Inr bw_data, w2) \<and>
      process_customer_data (customers_created now) (customers_updated now) ecc_data bw_data = Inr customers_df \<and>
      process_product_data (products_created now) (products_updated now) ecc_data bw_data = Inr products_df \<and>
      process_sales_data (sales_created now) ecc_data bw_data = Inr sales_df \<and>
      save_processed_data (SapDataProcessor environ) x customers_df products_df sales_df w2 = (Inl e, w3) \<longrightarrow>
      process_sap_data environ x now w =
        ([ReadECC, ReadBW, ReconcileCustomers, ReconcileProducts, ReconcileSales, WriteAll], Inl e, w3))
   \<and> (get_raw_sap_ecc_data (SapDataProcessor environ) x w = (Inr ecc_data, w1) \<and>
      get_raw_sap_bw_data (SapDataProcessor environ) x w1 = (Inr bw_data, w2) \<and>
      process_customer_data (customers_created now) (customers_updated now) ecc_data bw_data = Inr customers_df \<and>
      process_product_data (products_created now) (products_updated now) ecc_data bw_data = Inr products_df \<and>
      process_sales_data (sales_created now) ecc_data bw_data = Inr sales_df \<and>
      save_processed_data (SapDataProcessor environ) x customers_df products_df sales_df w2 = (Inr u, w3) \<longrightarrow>
      process_sap_data environ x now w =
        ([ReadECC, ReadBW, ReconcileCustomers, ReconcileProducts, ReconcileSales, WriteAll],
         Inr (''Successfully processed '' @ str_nat (length (rows customers_df)) @ '' customers, '' @
              str_nat (length (rows products_df)) @ '' products, and '' @
              str_nat (length (rows sales_df)) @ '' sales records''), w3))"
  by (simp add: process_sap_data_def Let_def summary_def len_def)

lemma customer_sample_run:
  "process_customer_data 1 2 [ecc_c1] [bw_c1] =
     Inr \<lparr>columns = [''CustomerID'', ''TotalOrders'', ''TotalSalesAmount'', ''LastOrderDate'', ''Region'',
                     ''SalesRep'', ''CustomerSegment'', ''CreatedDate'', ''UpdatedDate'', ''IsActive''],
          rows = [\<lparr>cu_CustomerID = ''C1'', cu_TotalOrders = 1, cu_TotalSalesAmount = 150,
                   cu_LastOrderDate = Some 7, cu_Region = Some ''North'', cu_SalesRep = Some ''Ann'',
                   cu_CustomerSegment = Some ''Gold'', cu_CreatedDate = Some 1, cu_UpdatedDate = Some 2,
                   cu_IsActive = Some True\<rparr>]\<rparr>"
  by code_simp

lemma sales_sample_run_both:
  "\<exists>sales_df. process_sales_data 3 [ecc_c1] [bw_c1] = Inr sales_df \<and> length (rows sales_df) = 2 \<and>
     columns sales_df \<noteq> []"
  by (simp add: process_sales_data_def empty_def sales_metadata_def setitem_def concat_frames_def
      ecc_sales_def ecc_sales_inplace_def bw_sales_def bw_sales_inplace_def ecc_sales_copy_def bw_sales_copy_def set_columns_def)

lemma str_nat_small: "str_nat (Suc 0) = ''1''" "str_nat 1 = ''1''" "str_nat 2 = ''2''"
  by (simp_all add: digit_def str_nat.simps)

lemma sample_reads:
  "get_raw_sap_ecc_data (SapDataProcessor sample_environ) (sample_collaborators bw) w = (Inr [ecc_c1], w)"
  "get_raw_sap_bw_data (SapDataProcessor sample_environ) (sample_collaborators bw) w = (Inr bw, w)"
  "get_raw_sap_ecc_data (SapDataProcessor Map.empty) (sample_collaborators bw) w =
     (Inl (ValueError ''No SQL connection string available''), w)"
  by (simp_all add: get_raw_sap_ecc_data_def get_raw_sap_bw_data_def get_connection_string_def
      SapDataProcessor_def sample_environ_def sample_collaborators_def truthy_def)

lemma sample_save:
  "save_processed_data (SapDataProcessor sample_environ) (sample_collaborators bw) c p s w =
     (Inr (), w @ (if \<not> frame_empty c then map MergeCustomer (rows c) else []) @
                  (if \<not> frame_empty p then map MergeProduct (rows p) else []) @
                  (if \<not> frame_empty s then map InsertSale (rows s) else []))"
  by (simp add: save_processed_data_def get_connection_string_def
      SapDataProcessor_def sample_environ_def sample_collaborators_def truthy_def)

text \<open>Three sample runs: no connection string, an ECC-only read, and a full run that commits four statements.\<close>

theorem etl_stages_in_order_witness:
  "process_sap_data Map.empty (sample_collaborators []) sample_now [] =
     ([ReadECC], Inl (ValueError ''No SQL connection string available''), [])
   \<and> process_sap_data sample_environ (sample_collaborators []) sample_now [] =
     ([ReadECC, ReadBW, ReconcileCustomers], Inl (KeyError [''CustomerSegment'']), [])
   \<and> (\<exists>w. process_sap_data sample_environ (sample_collaborators [bw_c1]) sample_now [] =
     ([ReadECC, ReadBW, ReconcileCustomers, ReconcileProducts, ReconcileSales, WriteAll],
      Inr ''Successfully processed 1 customers, 1 products, and 2 sales records'', w) \<and> length w = 4)"
proof (intro conjI)
  note t = etl_stages_in_order
  show "process_sap_data Map.empty (sample_collaborators []) sample_now [] =
     ([ReadECC], Inl (ValueError ''No SQL connection string available''), [])"
    using etl_stages_in_order [where environ = Map.empty and x = "sample_collaborators []" and w = "[]"
        and ?w1.0 = "[]" and now = sample_now, THEN conjunct1]
    by (simp add: sample_reads)
  have k: "process_customer_data (customers_created sample_now) (customers_updated sample_now) [ecc_c1] [] =
      Inl (KeyError [''CustomerSegment''])"
    by (simp add: process_customer_data_ecc_only)
  show "process_sap_data sample_environ (sample_collaborators []) sample_now [] =
     ([ReadECC, ReadBW, ReconcileCustomers], Inl (KeyError [''CustomerSegment'']), [])"
    using etl_stages_in_order [where environ = sample_environ and x = "sample_collaborators []" and w = "[]"
        and ?w1.0 = "[]" and now = sample_now and ecc_data = "[ecc_c1]" and ?w2.0 = "[]" and bw_data = "[]",
        THEN conjunct2, THEN conjunct2, THEN conjunct1] k
    by (simp add: sample_reads)
  obtain c where c: "process_customer_data 1 2 [ecc_c1] [bw_c1] = Inr c" "length (rows c) = 1"
    using customer_sample_run by simp
  obtain p where p: "process_product_data 1 2 [ecc_c1] [bw_c1] = Inr p" "length (rows p) = 1"
    using product_sample_run by simp
  obtain s where s: "process_sales_data 3 [ecc_c1] [bw_c1] = Inr s" "length (rows s) = 2"
    using sales_sample_run_both by blast
  define w where "w = (if \<not> frame_empty c then map MergeCustomer (rows c) else []) @
                  (if \<not> frame_empty p then map MergeProduct (rows p) else []) @
                  (if \<not> frame_empty s then map InsertSale (rows s) else [])"
  have sv: "save_processed_data (SapDataProcessor sample_environ) (sample_collaborators [bw_c1]) c p s [] =
      (Inr (), w)"
    by (simp add: sample_save w_def)
  have fe: "\<not> frame_empty c" "\<not> frame_empty p" "\<not> frame_empty s"
    using customer_sample_run product_sample_run c p s sales_sample_run_both
    by (auto simp: frame_empty_def)
  have lw: "length w = 4"
    using fe c(2) p(2) s(2) by (simp add: w_def)
  have "process_sap_data sample_environ (sample_collaborators [bw_c1]) sample_now [] =
        ([ReadECC, ReadBW, ReconcileCustomers, ReconcileProducts, ReconcileSales, WriteAll],
         Inr (''Successfully processed '' @ str_nat (length (rows c)) @ '' customers, '' @
              str_nat (length (rows p)) @ '' products, and '' @
              str_nat (length (rows s)) @ '' sales records''), w)"
    using etl_stages_in_order [where environ = sample_environ and x = "sample_collaborators [bw_c1]"
        and w = "[]" and ?w1.0 = "[]" and now = sample_now and ecc_data = "[ecc_c1]" and ?w2.0 = "[]"
        and bw_data = "[bw_c1]" and customers_df = c and products_df = p and sales_df = s
        and ?w3.0 = w and u = "()", THEN conjunct2, THEN conjunct2, THEN conjunct2,
        THEN conjunct2, THEN conjunct2, THEN conjunct2] c(1) p(1) s(1) sv
    by (simp add: sample_reads sample_now_def)
  then show "\<exists>w. process_sap_data sample_environ (sample_collaborators [bw_c1]) sample_now [] =
     ([ReadECC, ReadBW, ReconcileCustomers, ReconcileProducts, ReconcileSales, WriteAll],
      Inr ''Successfully processed 1 customers, 1 products, and 2 sales records'', w) \<and> length w = 4"
    using lw by (simp add: c(2) p(2) s(2) str_nat_small)
qed

section \<open>Properties of the search index update\<close>

























section \<open>The reconciliation writes fresh objects only\<close>

lemma sales_store:
  assumes "ecc_data < length h" "bw_data < length h"
    and "h ! ecc_data = EccData ecc_rows" "h ! bw_data = BwData bw_rows"
  shows "\<exists>r h' out. process_sales_data_store created ecc_data bw_data h = (Inr r, h')
      \<and> process_sales_data created ecc_rows bw_rows = Inr out
      \<and> length h \<le> r \<and> r < length h' \<and> h' ! r = Sales out \<and> take (length h) h' = h"
  using assms
  by (cases "ecc_rows = []"; cases "bw_rows = []")
     (simp_all add: process_sales_data_store_def process_sales_data_def new_def modify_def ecc_at_def bw_at_def
      sales_at_def on_sales_def empty_def ecc_sales_def bw_sales_def nth_append)

lemma customers_store:
  assumes "ecc_data < length h" "bw_data < length h"
    and "h ! ecc_data = EccData ecc_rows" "h ! bw_data = BwData bw_rows"
  shows "\<exists>res h'. process_customer_data_store created updated ecc_data bw_data h = (res, h')
      \<and> take (length h) h' = h
      \<and> (case res of
            Inl e \<Rightarrow> process_customer_data created updated ecc_rows bw_rows = Inl e
          | Inr r \<Rightarrow> length h \<le> r \<and> r < length h' \<and>
              (\<exists>out. process_customer_data created updated ecc_rows bw_rows = Inr out \<and> h' ! r = Customers out))"
  using assms
  by (cases "ecc_rows = []"; cases "bw_rows = []")
     (simp_all add: process_customer_data_store_def process_customer_data_def new_def modify_def
      ecc_at_def bw_at_def customer_rollups_at_def on_customer_rollups_def on_customers_def empty_def
      ecc_customers_def bw_customers_def nth_append split: sum.splits)

lemma products_store:
  assumes "ecc_data < length h" "bw_data < length h"
    and "h ! ecc_data = EccData ecc_rows" "h ! bw_data = BwData bw_rows"
  shows "\<exists>res h'. process_product_data_store created updated ecc_data bw_data h = (res, h')
      \<and> take (length h) h' = h
      \<and> (case res of
            Inl e \<Rightarrow> process_product_data created updated ecc_rows bw_rows = Inl e
          | Inr r \<Rightarrow> length h \<le> r \<and> r < length h' \<and>
              (\<exists>out. process_product_data created updated ecc_rows bw_rows = Inr out \<and> h' ! r = Products out))"
  using assms
  by (cases "ecc_rows = []"; cases "bw_rows = []")
     (simp_all add: process_product_data_store_def process_product_data_def new_def modify_def
      ecc_at_def bw_at_def product_rollups_at_def on_product_rollups_def on_products_def empty_def
      ecc_products_def bw_products_def nth_append split: sum.splits)

lemma take_nth_unchanged: "take n h' = h \<Longrightarrow> r < length h \<Longrightarrow> h' ! r = h ! r"
  by (metis nth_take length_take min_less_iff_conj)

text \<open>
  Claim C10. Run on a store that holds the ECC frame and the BW frame, each of the three
  reconciliations leaves every object that existed before the call as it was, the two
  input frames among them: the store only grows, and the relabelling and the column
  assignments land in objects allocated during the call. The object returned is the
  frame that the function computes on the values of the inputs, or the same error.
\<close>

theorem reconciliation_leaves_inputs_unchanged:
  assumes "ecc_data < length h" and "bw_data < length h"
    and "h ! ecc_data = EccData ecc_rows" and "h ! bw_data = BwData bw_rows"
  shows "take (length h) (snd (process_customer_data_store created updated ecc_data bw_data h)) = h
     \<and> snd (process_customer_data_store created updated ecc_data bw_data h) ! ecc_data = EccData ecc_rows
     \<and> snd (process_customer_data_store created updated ecc_data bw_data h) ! bw_data = BwData bw_rows
     \<and> take (length h) (snd (process_product_data_store created updated ecc_data bw_data h)) = h
     \<and> snd (process_product_data_store created updated ecc_data bw_data h) ! ecc_data = EccData ecc_rows
     \<and> snd (process_product_data_store created updated ecc_data bw_data h) ! bw_data = BwData bw_rows
     \<and> take (length h) (snd (process_sales_data_store created ecc_data bw_data h)) = h
     \<and> snd (process_sales_data_store created ecc_data bw_data h) ! ecc_data = EccData ecc_rows
     \<and> snd (process_sales_data_store created ecc_data bw_data h) ! bw_data = BwData bw_rows
     \<and> (case process_customer_data_store created updated ecc_data bw_data h of
           (Inl e, h') \<Rightarrow> process_customer_data created updated ecc_rows bw_rows = Inl e
         | (Inr r, h') \<Rightarrow> length h \<le> r \<and>
             map_sum id Customers (process_customer_data created updated ecc_rows bw_rows) = Inr (h' ! r))
     \<and> (case process_product_data_store created updated ecc_data bw_data h of
           (Inl e, h') \<Rightarrow> process_product_data created updated ecc_rows bw_rows = Inl e
         | (Inr r, h') \<Rightarrow> length h \<le> r \<and>
             map_sum id Products (process_product_data created updated ecc_rows bw_rows) = Inr (h' ! r))
     \<and> (case process_sales_data_store created ecc_data bw_data h of
           (Inl e, h') \<Rightarrow> process_sales_data created ecc_rows bw_rows = Inl e
         | (Inr r, h') \<Rightarrow> length h \<le> r \<and>
             map_sum id Sales (process_sales_data created ecc_rows bw_rows) = Inr (h' ! r))"
proof -
  obtain rc hc where c: "process_customer_data_store created updated ecc_data bw_data h = (rc, hc)"
    and tc: "take (length h) hc = h"
    and ac: "case rc of
            Inl e \<Rightarrow> process_customer_data created updated ecc_rows bw_rows = Inl e
          | Inr r \<Rightarrow> length h \<le> r \<and> r < length hc \<and>
              (\<exists>out. process_customer_data created updated ecc_rows bw_rows = Inr out \<and> hc ! r = Customers out)"
    using customers_store [OF assms] by blast
  obtain rp hp where p: "process_product_data_store created updated ecc_data bw_data h = (rp, hp)"
    and tp: "take (length h) hp = h"
    and ap: "case rp of
            Inl e \<Rightarrow> process_product_data created updated ecc_rows bw_rows = Inl e
          | Inr r \<Rightarrow> length h \<le> r \<and> r < length hp \<and>
              (\<exists>out. process_product_data created updated ecc_rows bw_rows = Inr out \<and> hp ! r = Products out)"
    using products_store [OF assms] by blast
  obtain rs hs out where s: "process_sales_data_store created ecc_data bw_data h = (Inr rs, hs)"
    and ts: "take (length h) hs = h"
    and asl: "process_sales_data created ecc_rows bw_rows = Inr out" "length h \<le> rs" "hs ! rs = Sales out"
    using sales_store [OF assms] by blast
  have ic: "hc ! ecc_data = EccData ecc_rows" "hc ! bw_data = BwData bw_rows"
    using take_nth_unchanged [OF tc] assms by simp_all
  have ip: "hp ! ecc_data = EccData ecc_rows" "hp ! bw_data = BwData bw_rows"
    using take_nth_unchanged [OF tp] assms by simp_all
  have isl: "hs ! ecc_data = EccData ecc_rows" "hs ! bw_data = BwData bw_rows"
    using take_nth_unchanged [OF ts] assms by simp_all
  have gc: "case rc of Inl e \<Rightarrow> process_customer_data created updated ecc_rows bw_rows = Inl e
         | Inr r \<Rightarrow> length h \<le> r \<and>
             map_sum id Customers (process_customer_data created updated ecc_rows bw_rows) = Inr (hc ! r)"
    using ac by (auto split: sum.splits)
  have gp: "case rp of Inl e \<Rightarrow> process_product_data created updated ecc_rows bw_rows = Inl e
         | Inr r \<Rightarrow> length h \<le> r \<and>
             map_sum id Products (process_product_data created updated ecc_rows bw_rows) = Inr (hp ! r)"
    using ap by (auto split: sum.splits)
  show ?thesis
    unfolding c p s using tc tp ts ic ip isl gc gp asl by (simp split: sum.splits)
qed

text \<open>The three reconciliations on the sample store.\<close>

theorem reconciliation_leaves_inputs_unchanged_witness:
  "(0::nat) < length sample_store \<and> (1::nat) < length sample_store \<and>
   sample_store ! 0 = EccData [ecc_c1] \<and> sample_store ! 1 = BwData [bw_c1] \<and>
   take 2 (snd (process_customer_data_store 1 2 0 1 sample_store)) = sample_store \<and>
   take 2 (snd (process_product_data_store 1 2 0 1 sample_store)) = sample_store \<and>
   take 2 (snd (process_sales_data_store 1 0 1 sample_store)) = sample_store \<and>
   length (snd (process_customer_data_store 1 2 0 1 sample_store)) = 6"
proof -
  have h: "(0::nat) < length sample_store" "(1::nat) < length sample_store"
    "sample_store ! 0 = EccData [ecc_c1]" "sample_store ! 1 = BwData [bw_c1]"
    by (simp_all add: sample_store_def)
  have l: "length sample_store = 2" by (simp add: sample_store_def)
  have n: "length (snd (process_customer_data_store 1 2 0 1 sample_store)) = 6"
    by code_simp
  from reconciliation_leaves_inputs_unchanged [OF h, where created = 1 and updated = 2] h l n show ?thesis
    by simp
qed

end
